theory Spec2Isabelle
  imports Complex_Main "HOL-Library.Log_Nat"
begin

section \<open>Study sessions and badges of the skill tracker\<close>

text \<open>
  The development embeds the study-time functions of \<^verbatim>\<open>auth_db.py\<close> and
  \<^verbatim>\<open>skills.py\<close>. The SQLite tables are lists of rows, Python integers are
  \<^typ>\<open>int\<close>, and a timestamp is the number of whole seconds it denotes: the
  code formats every reading of the clock with \<^verbatim>\<open>%Y-%m-%d %H:%M:%S\<close> and
  parses it back before subtracting, so only whole seconds are ever compared.
  A function that returns \<^verbatim>\<open>(True, v)\<close> or \<^verbatim>\<open>(False, message)\<close>
  returns \<open>Inr v\<close> or \<open>Inl message\<close> here.
\<close>

subsection \<open>Tables\<close>

text \<open>Table \<^verbatim>\<open>users\<close>: the columns the study functions read.\<close>

record user_row =
  user_pk :: int
  username :: string

text \<open>Table \<^verbatim>\<open>study_sessions\<close>; \<open>end_time = None\<close> is SQL \<^verbatim>\<open>NULL\<close>.\<close>

record study_session =
  session_id :: int
  user_id :: int
  skill_id :: string
  start_time :: int
  end_time :: "int option"
  duration_minutes :: "int option"

text \<open>Table \<^verbatim>\<open>user_badges\<close>.\<close>

record user_badge =
  badge_user_id :: int
  total_study_minutes :: int
  current_badge :: string
  badge_updated_at :: "int option"

text \<open>
  The database file. \<open>session_seq\<close> is the largest row id ever given out in
  \<^verbatim>\<open>study_sessions\<close>, which \<^verbatim>\<open>AUTOINCREMENT\<close> keeps.
\<close>

record database =
  users :: "user_row list"
  study_sessions :: "study_session list"
  session_seq :: int
  user_badges :: "user_badge list"

text \<open>The tables right after \<^verbatim>\<open>initialize_db\<close> has created them.\<close>

definition initialize_db :: database where
  "initialize_db = \<lparr>users = [], study_sessions = [], session_seq = 0, user_badges = []\<rparr>"

subsection \<open>Badge table and badge lookup\<close>

record badge_level =
  title :: string
  minutes :: int

definition BADGE_LEVELS :: "badge_level list" where
  "BADGE_LEVELS =
    [\<lparr>title = ''Member'', minutes = 0\<rparr>,
     \<lparr>title = ''Entry'', minutes = 60\<rparr>,
     \<lparr>title = ''Beginner'', minutes = 300\<rparr>,
     \<lparr>title = ''Intermediate'', minutes = 900\<rparr>,
     \<lparr>title = ''Proficient'', minutes = 1800\<rparr>,
     \<lparr>title = ''Advanced'', minutes = 3600\<rparr>,
     \<lparr>title = ''Expert'', minutes = 7200\<rparr>,
     \<lparr>title = ''A+ Student'', minutes = 12000\<rparr>,
     \<lparr>title = ''Master'', minutes = 18000\<rparr>,
     \<lparr>title = ''Grand Master'', minutes = 24000\<rparr>,
     \<lparr>title = ''Study Machine'', minutes = 30000\<rparr>,
     \<lparr>title = ''Study Master'', minutes = 36000\<rparr>]"

text \<open>
  The loop of \<^verbatim>\<open>get_badge_for_minutes\<close> over the levels it is given, in the
  order it is given them: the first level reached wins, and \<open>badge\<close> stays as it
  is when none is reached.
\<close>

fun badge_scan :: "badge_level list \<Rightarrow> int \<Rightarrow> string \<Rightarrow> string" where
  "badge_scan [] total_minutes badge = badge"
| "badge_scan (level # levels) total_minutes badge =
     (if total_minutes \<ge> minutes level then title level
      else badge_scan levels total_minutes badge)"

text \<open>\<^verbatim>\<open>BADGE_LEVELS[0]["title"]\<close> is the default; the loop runs over the reversed table.\<close>

definition get_badge_for_minutes :: "int \<Rightarrow> string" where
  "get_badge_for_minutes total_minutes =
     badge_scan (rev BADGE_LEVELS) total_minutes (title (BADGE_LEVELS ! 0))"

subsection \<open>Python floats\<close>

text \<open>
  Two expressions of the code go through floating point: the duration
  \<^verbatim>\<open>int((end_dt - start_dt).total_seconds() / 60)\<close> and the progress
  \<^verbatim>\<open>int((progress_value / progress_range) * 100)\<close>. A Python float is an
  IEEE 754 double; the pair \<open>(m, e)\<close> stands for the double \<open>m * 2 ^ e\<close>. Every
  operation returns the double nearest to the exact result, ties going to the
  even significand. Exponents are not bounded here, so there is no overflow
  (where Python raises \<^verbatim>\<open>OverflowError\<close>) and no gradual underflow: the
  values that occur, quotients of differences of timestamps and of totals of
  minutes that SQLite stores in 64 bits, lie far inside the range of normal
  doubles.
\<close>

type_synonym double = "int \<times> int"

definition double_val :: "double \<Rightarrow> real" where
  "double_val x = real_of_int (fst x) * 2 powi (snd x)"

text \<open>The fraction \<open>n / d\<close> divided by \<open>2 ^ e\<close>, again as a fraction.\<close>

definition scale2 :: "int \<Rightarrow> int \<Rightarrow> int \<Rightarrow> int \<times> int" where
  "scale2 n d e = (if e \<ge> 0 then (n, d * 2 ^ nat e) else (n * 2 ^ nat (- e), d))"

text \<open>The integer nearest to \<open>n / d\<close> for \<open>n \<ge> 0\<close> and \<open>d > 0\<close>, ties to even.\<close>

definition round_half_even :: "int \<Rightarrow> int \<Rightarrow> int" where
  "round_half_even n d =
     (let q = n div d; r = n mod d
      in if 2 * r < d then q
         else if 2 * r > d then q + 1
         else if even q then q else q + 1)"

text \<open>
  The exponent at which the fraction \<open>a / d\<close> (both positive) is rounded: the
  \<open>e\<close> for which \<open>a / d / 2 ^ e\<close> lies from \<open>2 ^ 52\<close> up to \<open>2 ^ 53\<close>, so that
  rounding to an integer there leaves 53 significant bits. The bit lengths
  place the quotient within a factor of two.
\<close>

definition rounding_exponent :: "int \<Rightarrow> int \<Rightarrow> int" where
  "rounding_exponent a d =
     (let e0 = bitlen a - bitlen d - 53
      in if fst (scale2 a d e0) \<ge> 2 ^ 53 * snd (scale2 a d e0) then e0 + 1 else e0)"

text \<open>The double nearest to \<open>(n / d) * 2 ^ k\<close>, for \<open>d > 0\<close>.\<close>

definition round_double :: "int \<Rightarrow> int \<Rightarrow> int \<Rightarrow> double" where
  "round_double n d k =
     (if n = 0 then (0, 0)
      else
        let e = rounding_exponent \<bar>n\<bar> d
        in (sgn n * round_half_even (fst (scale2 \<bar>n\<bar> d e)) (snd (scale2 \<bar>n\<bar> d e)), e + k))"

text \<open>\<^verbatim>\<open>float(n)\<close>, and an integer operand of a float operation.\<close>

definition float_of_int :: "int \<Rightarrow> double" where
  "float_of_int n = round_double n 1 0"

text \<open>\<^verbatim>\<open>a / b\<close> on two integers with \<open>b \<noteq> 0\<close>: the quotient, rounded once.\<close>

definition int_truediv :: "int \<Rightarrow> int \<Rightarrow> double" where
  "int_truediv a b = round_double (a * sgn b) \<bar>b\<bar> 0"

text \<open>\<^verbatim>\<open>x / y\<close> on two floats with \<open>y \<noteq> 0\<close>.\<close>

definition float_div :: "double \<Rightarrow> double \<Rightarrow> double" where
  "float_div x y = round_double (fst x * sgn (fst y)) \<bar>fst y\<bar> (snd x - snd y)"

text \<open>\<^verbatim>\<open>x * y\<close> on two floats.\<close>

definition float_mul :: "double \<Rightarrow> double \<Rightarrow> double" where
  "float_mul x y = round_double (fst x * fst y) 1 (snd x + snd y)"

text \<open>\<^verbatim>\<open>int(x)\<close>: the fraction is cut off, towards zero.\<close>

definition int_of_float :: "double \<Rightarrow> int" where
  "int_of_float x =
     (if snd x \<ge> 0 then fst x * 2 ^ nat (snd x)
      else sgn (fst x) * (\<bar>fst x\<bar> div 2 ^ nat (- snd x)))"

text \<open>
  \<^verbatim>\<open>int((end_dt - start_dt).total_seconds() / 60)\<close> for a difference of
  \<open>seconds\<close> whole seconds: \<^verbatim>\<open>total_seconds()\<close> is the float of the
  difference, and the divisor 60 is converted to a float.
\<close>

definition minutes_between :: "int \<Rightarrow> int" where
  "minutes_between seconds =
     int_of_float (float_div (float_of_int seconds) (float_of_int 60))"

subsection \<open>Database failures\<close>

text \<open>
  \<^verbatim>\<open>start_study_session\<close> and \<^verbatim>\<open>end_study_session\<close> run their statements
  inside \<^verbatim>\<open>try\<close>; the handler rolls the transaction back and returns the text
  of the exception. A fault \<open>Some (n, e)\<close> makes the \<open>n\<close>-th database call of a run
  (counted from 0, the commit included) raise an exception whose text is \<open>e\<close>;
  \<open>None\<close> is a run in which SQLite raises nothing.
\<close>

type_synonym fault = "(nat \<times> string) option"

definition raises :: "fault \<Rightarrow> nat \<Rightarrow> bool" where
  "raises flt n = (case flt of None \<Rightarrow> False | Some (k, e) \<Rightarrow> k = n)"

definition exception_text :: "fault \<Rightarrow> string" where
  "exception_text flt = (case flt of None \<Rightarrow> [] | Some (k, e) \<Rightarrow> e)"

subsection \<open>Starting and ending a study session\<close>

text \<open>
  \<^verbatim>\<open>start_study_session(user_id, skill_id)\<close> at clock reading \<open>current_time\<close>.
  Nothing is written before the insert, so the rollback of the handler leaves
  the database as it was.
\<close>

definition start_study_session ::
  "fault \<Rightarrow> int \<Rightarrow> int \<Rightarrow> string \<Rightarrow> database \<Rightarrow> (string + int) \<times> database" where
  "start_study_session flt current_time uid skill db =
     (if raises flt 0 then (Inl (''Error starting study session: '' @ exception_text flt), db)
      else
        case find (\<lambda>r. user_id r = uid \<and> skill_id r = skill \<and> end_time r = None)
               (study_sessions db) of
          Some ongoing \<Rightarrow>
            (Inl ''You already have an ongoing study session for this skill.'', db)
        | None \<Rightarrow>
            if raises flt 1 \<or> raises flt 2
            then (Inl (''Error starting study session: '' @ exception_text flt), db)
            else
              let new_id = session_seq db + 1;
                  row = \<lparr>session_id = new_id, user_id = uid, skill_id = skill,
                         start_time = current_time, end_time = None,
                         duration_minutes = None\<rparr>
              in (Inr new_id,
                  db\<lparr>study_sessions := study_sessions db @ [row], session_seq := new_id\<rparr>))"

text \<open>The two \<^verbatim>\<open>UPDATE\<close> statements of \<^verbatim>\<open>end_study_session\<close>.\<close>

definition close_session :: "int \<Rightarrow> int \<Rightarrow> int \<Rightarrow> study_session list \<Rightarrow> study_session list" where
  "close_session sid current_time duration rows =
     map (\<lambda>r. if session_id r = sid
              then r\<lparr>end_time := Some current_time, duration_minutes := Some duration\<rparr>
              else r) rows"

definition update_badge :: "int \<Rightarrow> int \<Rightarrow> string \<Rightarrow> int \<Rightarrow> user_badge list \<Rightarrow> user_badge list" where
  "update_badge uid new_total badge current_time rows =
     map (\<lambda>b. if badge_user_id b = uid
              then b\<lparr>total_study_minutes := new_total, current_badge := badge,
                     badge_updated_at := Some current_time\<rparr>
              else b) rows"

text \<open>
  \<^verbatim>\<open>end_study_session(session_id)\<close> at clock reading \<open>current_time\<close>. The
  database calls are, in order: the lookup of the open session (0), the update
  of the session (1), the lookup of the badge row (2), then either the update
  of the badge row (3) and the commit (4), or, when the user has no badge row,
  the commit alone (3). Both updates belong to one transaction: an exception at
  any call rolls back whatever the run has written.
\<close>

definition end_study_session ::
  "fault \<Rightarrow> int \<Rightarrow> int \<Rightarrow> database \<Rightarrow> (string + int) \<times> database" where
  "end_study_session flt current_time sid db =
     (if raises flt 0 then (Inl (''Error ending study session: '' @ exception_text flt), db)
      else
        case find (\<lambda>r. session_id r = sid \<and> end_time r = None) (study_sessions db) of
          None \<Rightarrow> (Inl ''No active study session found.'', db)
        | Some session \<Rightarrow>
            let duration = minutes_between (current_time - start_time session);
                db1 = db\<lparr>study_sessions :=
                           close_session sid current_time duration (study_sessions db)\<rparr>
            in if raises flt 1 \<or> raises flt 2
               then (Inl (''Error ending study session: '' @ exception_text flt), db)
               else
                 case find (\<lambda>b. badge_user_id b = user_id session) (user_badges db1) of
                   Some result \<Rightarrow>
                     let total_minutes = total_study_minutes result + duration;
                         new_badge = get_badge_for_minutes total_minutes;
                         db2 = db1\<lparr>user_badges :=
                                    update_badge (user_id session) total_minutes new_badge
                                      current_time (user_badges db1)\<rparr>
                     in if raises flt 3 \<or> raises flt 4
                        then (Inl (''Error ending study session: '' @ exception_text flt), db)
                        else (Inr duration, db2)
                 | None \<Rightarrow>
                     if raises flt 3
                     then (Inl (''Error ending study session: '' @ exception_text flt), db)
                     else (Inr duration, db1))"

subsection \<open>Statistics\<close>

text \<open>
  The dictionary of \<^verbatim>\<open>get_user_study_stats\<close>. Its key \<^verbatim>\<open>total_hours\<close>, a
  float rounded to one decimal for display, is left out: nothing below reads it.
\<close>

record study_stats =
  total_minutes :: int
  stats_current_badge :: string
  next_badge :: string
  minutes_to_next_badge :: int

text \<open>The dictionary of \<^verbatim>\<open>get_study_badge\<close>: the same with \<^verbatim>\<open>progress_percent\<close>.\<close>

record badge_stats = study_stats +
  progress_percent :: int

text \<open>
  \<^verbatim>\<open>next((i for i, level in enumerate(BADGE_LEVELS) if level["title"] == badge), 0)\<close>:
  the position of the first level with that title, 0 when there is none.
\<close>

fun first_index :: "badge_level list \<Rightarrow> string \<Rightarrow> nat option" where
  "first_index [] badge = None"
| "first_index (level # levels) badge =
     (if title level = badge then Some 0
      else case first_index levels badge of None \<Rightarrow> None | Some i \<Rightarrow> Some (Suc i))"

definition level_index :: "string \<Rightarrow> nat" where
  "level_index badge = (case first_index BADGE_LEVELS badge of None \<Rightarrow> 0 | Some i \<Rightarrow> i)"

text \<open>
  \<^verbatim>\<open>get_user_study_stats(user_id)\<close>; the argument is \<open>None\<close> when the caller
  passes Python's \<^verbatim>\<open>None\<close>, which matches no row.
\<close>

definition get_user_study_stats :: "database \<Rightarrow> int option \<Rightarrow> study_stats" where
  "get_user_study_stats db uid =
     (case find (\<lambda>b. Some (badge_user_id b) = uid) (user_badges db) of
        None \<Rightarrow>
          \<lparr>total_minutes = 0, stats_current_badge = ''Member'', next_badge = ''Entry'',
           minutes_to_next_badge = 60\<rparr>
      | Some result \<Rightarrow>
          let current_level_index = level_index (current_badge result)
          in if current_level_index < length BADGE_LEVELS - 1
             then
               \<lparr>total_minutes = total_study_minutes result,
                stats_current_badge = current_badge result,
                next_badge = title (BADGE_LEVELS ! (current_level_index + 1)),
                minutes_to_next_badge =
                  max 0 (minutes (BADGE_LEVELS ! (current_level_index + 1))
                         - total_study_minutes result)\<rparr>
             else
               \<lparr>total_minutes = total_study_minutes result,
                stats_current_badge = current_badge result,
                next_badge = ''Highest Level Achieved!'',
                minutes_to_next_badge = 0\<rparr>)"

definition get_user_id :: "database \<Rightarrow> string \<Rightarrow> int option" where
  "get_user_id db name =
     (case find (\<lambda>u. username u = name) (users db) of
        None \<Rightarrow> None
      | Some u \<Rightarrow> Some (user_pk u))"

text \<open>
  The progress computed by \<^verbatim>\<open>get_study_badge\<close> from the statistics:
  \<^verbatim>\<open>min(100, int((progress_value / progress_range) * 100))\<close>, in floats.
\<close>

definition progress_of :: "study_stats \<Rightarrow> int" where
  "progress_of stats =
     (if minutes_to_next_badge stats > 0
      then
        let current_badge_index = level_index (stats_current_badge stats);
            current_threshold = minutes (BADGE_LEVELS ! current_badge_index);
            next_threshold =
              (if current_badge_index < length BADGE_LEVELS - 1
               then minutes (BADGE_LEVELS ! (current_badge_index + 1))
               else current_threshold);
            progress_range = next_threshold - current_threshold;
            progress_value = total_minutes stats - current_threshold
        in if progress_range > 0
           then min 100 (int_of_float
                  (float_mul (int_truediv progress_value progress_range) (float_of_int 100)))
           else 100
      else 100)"

text \<open>
  \<^verbatim>\<open>get_study_badge(username)\<close>. \<^verbatim>\<open>not user_id\<close> holds for \<^verbatim>\<open>None\<close> and
  for 0. The dictionary returned for an unknown user has no key
  \<^verbatim>\<open>total_minutes\<close>; the record carries 0 there.
\<close>

definition get_study_badge :: "database \<Rightarrow> string \<Rightarrow> badge_stats" where
  "get_study_badge db name =
     (case get_user_id db name of
        None \<Rightarrow>
          \<lparr>total_minutes = 0, stats_current_badge = ''Member'', next_badge = ''Entry'',
           minutes_to_next_badge = 60, progress_percent = 0\<rparr>
      | Some uid \<Rightarrow>
          if uid = 0
          then \<lparr>total_minutes = 0, stats_current_badge = ''Member'', next_badge = ''Entry'',
                minutes_to_next_badge = 60, progress_percent = 0\<rparr>
          else
            let stats = get_user_study_stats db (Some uid)
            in study_stats.extend stats
                 (badge_stats.fields (progress_of stats)))"

subsection \<open>The timers of \<^verbatim>\<open>skills.py\<close>\<close>

text \<open>
  \<^verbatim>\<open>st.session_state\<close>, as far as the timers use it: the dictionary
  \<^verbatim>\<open>active_study_sessions\<close> from skill to session id, \<open>None\<close> while the key
  is not in the session state.
\<close>

record session_state =
  active_study_sessions :: "(string \<rightharpoonup> int) option"

text \<open>The decimal digits of a Python integer, as an f-string prints it.\<close>

fun str_nat :: "nat \<Rightarrow> string" where
  "str_nat n =
     (if n < 10 then [''0123456789'' ! n]
      else str_nat (n div 10) @ [''0123456789'' ! (n mod 10)])"

definition str_int :: "int \<Rightarrow> string" where
  "str_int i = (if i < 0 then CHR ''-'' # str_nat (nat (- i)) else str_nat (nat i))"

definition start_study_timer ::
  "fault \<Rightarrow> int \<Rightarrow> string \<Rightarrow> string \<Rightarrow> session_state \<times> database
     \<Rightarrow> (string + string) \<times> session_state \<times> database" where
  "start_study_timer flt current_time name skill st =
     (case get_user_id (snd st) name of
        None \<Rightarrow> (Inl ''User not found'', st)
      | Some uid \<Rightarrow>
          if uid = 0 then (Inl ''User not found'', st)
          else
            case start_study_session flt current_time uid skill (snd st) of
              (Inr result, db') \<Rightarrow>
                let active = (case active_study_sessions (fst st) of
                                None \<Rightarrow> Map.empty | Some m \<Rightarrow> m)
                in (Inr ''Study timer started'',
                    (fst st)\<lparr>active_study_sessions := Some (active(skill \<mapsto> result))\<rparr>, db')
            | (Inl result, db') \<Rightarrow> (Inl result, fst st, db'))"

text \<open>
  \<^verbatim>\<open>end_study_timer(username, skill_id)\<close>. The two readings of the statistics
  around the call of \<^verbatim>\<open>end_study_session\<close> change nothing and their results are
  not used.
\<close>

definition end_study_timer ::
  "fault \<Rightarrow> int \<Rightarrow> string \<Rightarrow> string \<Rightarrow> session_state \<times> database
     \<Rightarrow> (string + string) \<times> session_state \<times> database" where
  "end_study_timer flt current_time name skill st =
     (case active_study_sessions (fst st) of
        None \<Rightarrow> (Inl ''No active study timer found'', st)
      | Some active \<Rightarrow>
          case active skill of
            None \<Rightarrow> (Inl ''No active study timer found'', st)
          | Some sid \<Rightarrow>
              case end_study_session flt current_time sid (snd st) of
                (Inr result, db') \<Rightarrow>
                  (Inr (''Study session ended. You studied for '' @ str_int result
                        @ '' minutes.''),
                   (fst st)\<lparr>active_study_sessions := Some (active(skill := None))\<rparr>, db')
              | (Inl result, db') \<Rightarrow> (Inl result, fst st, db'))"

subsection \<open>Sequences of operations\<close>

text \<open>
  A call of \<^verbatim>\<open>start_study_session\<close> or of \<^verbatim>\<open>end_study_session\<close>, with the
  clock reading and the behaviour of the database during the call.
\<close>

datatype session_op =
  Start fault int int string
| End fault int int

fun apply_op :: "session_op \<Rightarrow> database \<Rightarrow> database" where
  "apply_op (Start flt current_time uid skill) db =
     snd (start_study_session flt current_time uid skill db)"
| "apply_op (End flt current_time sid) db =
     snd (end_study_session flt current_time sid db)"

fun run_ops :: "session_op list \<Rightarrow> database \<Rightarrow> database" where
  "run_ops [] db = db"
| "run_ops (x # xs) db = run_ops xs (apply_op x db)"

text \<open>The open sessions of a user on a skill: the rows whose \<open>end_time\<close> is \<^verbatim>\<open>NULL\<close>.\<close>

definition open_sessions :: "database \<Rightarrow> int \<Rightarrow> string \<Rightarrow> study_session list" where
  "open_sessions db uid skill =
     filter (\<lambda>r. user_id r = uid \<and> skill_id r = skill \<and> end_time r = None)
       (study_sessions db)"

subsection \<open>Example states\<close>

text \<open>
  A registered user with ten minutes on record and a session on one skill that
  was started at second 1000 and is still open.
\<close>

definition example_open_db :: database where
  "example_open_db =
     \<lparr>users = [\<lparr>user_pk = 1, username = ''ada''\<rparr>],
      study_sessions =
        [\<lparr>session_id = 1, user_id = 1, skill_id = ''python'', start_time = 1000,
          end_time = None, duration_minutes = None\<rparr>],
      session_seq = 1,
      user_badges =
        [\<lparr>badge_user_id = 1, total_study_minutes = 10, current_badge = ''Member'',
          badge_updated_at = Some 0\<rparr>]\<rparr>"

text \<open>
  The state after \<^verbatim>\<open>start_study_session(5, "python")\<close> on fresh tables: the
  function does not look the user up, and user 5 has no row in
  \<^verbatim>\<open>user_badges\<close>.
\<close>

definition example_no_badge_db :: database where
  "example_no_badge_db =
     \<lparr>users = [],
      study_sessions =
        [\<lparr>session_id = 1, user_id = 5, skill_id = ''python'', start_time = 1000,
          end_time = None, duration_minutes = None\<rparr>],
      session_seq = 1,
      user_badges = []\<rparr>"

text \<open>A user with 150 minutes, and a user with 19740 minutes, each with the badge of that total.\<close>

definition example_entry_db :: database where
  "example_entry_db =
     \<lparr>users = [\<lparr>user_pk = 1, username = ''ada''\<rparr>],
      study_sessions = [],
      session_seq = 0,
      user_badges =
        [\<lparr>badge_user_id = 1, total_study_minutes = 150, current_badge = ''Entry'',
          badge_updated_at = Some 0\<rparr>]\<rparr>"

definition example_master_db :: database where
  "example_master_db =
     \<lparr>users = [\<lparr>user_pk = 1, username = ''ada''\<rparr>],
      study_sessions = [],
      session_seq = 0,
      user_badges =
        [\<lparr>badge_user_id = 1, total_study_minutes = 19740, current_badge = ''Master'',
          badge_updated_at = Some 0\<rparr>]\<rparr>"

text \<open>
  A user whose only session was ended with the clock 1800 seconds before its
  start: the total is - 30 and the badge looked up for it is the default.
\<close>

definition example_negative_db :: database where
  "example_negative_db =
     \<lparr>users = [\<lparr>user_pk = 1, username = ''ada''\<rparr>],
      study_sessions =
        [\<lparr>session_id = 1, user_id = 1, skill_id = ''python'', start_time = 3000,
          end_time = Some 1200, duration_minutes = Some (- 30)\<rparr>],
      session_seq = 1,
      user_badges =
        [\<lparr>badge_user_id = 1, total_study_minutes = - 30, current_badge = ''Member'',
          badge_updated_at = Some 1200\<rparr>]\<rparr>"

text \<open>A user at the last level of the table.\<close>

definition example_top_db :: database where
  "example_top_db =
     \<lparr>users = [\<lparr>user_pk = 1, username = ''ada''\<rparr>],
      study_sessions = [],
      session_seq = 0,
      user_badges =
        [\<lparr>badge_user_id = 1, total_study_minutes = 40000, current_badge = ''Study Master'',
          badge_updated_at = Some 0\<rparr>]\<rparr>"

section \<open>Properties\<close>

subsection \<open>Badge lookup\<close>

text \<open>
  On levels sorted by falling threshold, the scan returns the title of a level
  whose threshold is the highest one not above the total.
\<close>

lemma badge_scan_desc:
  assumes "sorted_wrt (\<lambda>a b. minutes a \<ge> minutes b) xs"
    and "\<exists>l\<in>set xs. minutes l \<le> t"
  shows "\<exists>level\<in>set xs. badge_scan xs t d = title level \<and> minutes level \<le> t
           \<and> (\<forall>l\<in>set xs. minutes l \<le> t \<longrightarrow> minutes l \<le> minutes level)"
  using assms
proof (induction xs)
  case Nil
  then show ?case by simp
next
  case (Cons x xs)
  show ?case
  proof (cases "minutes x \<le> t")
    case True
    with Cons.prems(1) show ?thesis by auto
  next
    case False
    with Cons.prems have "\<exists>l\<in>set xs. minutes l \<le> t"
      and "sorted_wrt (\<lambda>a b. minutes a \<ge> minutes b) xs"
      by auto
    from Cons.IH[OF this(2) this(1)] False show ?thesis by auto
  qed
qed

lemma badge_levels_desc: "sorted_wrt (\<lambda>a b. minutes a \<ge> minutes b) (rev BADGE_LEVELS)"
  by (simp add: BADGE_LEVELS_def)

lemma badge_levels_first: "\<lparr>title = ''Member'', minutes = 0\<rparr> \<in> set BADGE_LEVELS"
  by (simp add: BADGE_LEVELS_def)

text \<open>
  C3. For every total of minutes that is not negative, \<open>get_badge_for_minutes\<close>
  returns the title of a level of the badge table whose threshold is at most the
  total and is the highest such threshold; thresholds are inclusive, so that 59
  minutes give the level of threshold 0 (Member) and 60 minutes the level of
  threshold 60 (Entry).
\<close>

theorem badge_lookup_highest_tier:
  "(0 \<le> t \<longrightarrow>
      (\<exists>level\<in>set BADGE_LEVELS.
          get_badge_for_minutes t = title level \<and> minutes level \<le> t
          \<and> (\<forall>l\<in>set BADGE_LEVELS. minutes l \<le> t \<longrightarrow> minutes l \<le> minutes level)))
   \<and> get_badge_for_minutes 59 = ''Member''
   \<and> get_badge_for_minutes 60 = ''Entry''"
proof (intro conjI impI)
  assume t: "0 \<le> t"
  have "\<exists>l\<in>set (rev BADGE_LEVELS). minutes l \<le> t"
    using badge_levels_first t by (intro bexI[of _ "\<lparr>title = ''Member'', minutes = 0\<rparr>"]) auto
  from badge_scan_desc[OF badge_levels_desc this, of "title (BADGE_LEVELS ! 0)"]
  show "\<exists>level\<in>set BADGE_LEVELS.
          get_badge_for_minutes t = title level \<and> minutes level \<le> t
          \<and> (\<forall>l\<in>set BADGE_LEVELS. minutes l \<le> t \<longrightarrow> minutes l \<le> minutes level)"
    by (simp add: get_badge_for_minutes_def)
next
  show "get_badge_for_minutes 59 = ''Member''"
    by (simp add: get_badge_for_minutes_def BADGE_LEVELS_def)
next
  show "get_badge_for_minutes 60 = ''Entry''"
    by (simp add: get_badge_for_minutes_def BADGE_LEVELS_def)
qed

theorem badge_lookup_highest_tier_witness:
  "(0::int) \<le> 300 \<and>
   (\<exists>level\<in>set BADGE_LEVELS.
       get_badge_for_minutes 300 = title level \<and> minutes level \<le> 300
       \<and> (\<forall>l\<in>set BADGE_LEVELS. minutes l \<le> 300 \<longrightarrow> minutes l \<le> minutes level))"
  using badge_lookup_highest_tier[of 300] by simp

subsection \<open>Rounding to doubles\<close>

text \<open>
  The fraction is scaled exactly, the scaled fraction is rounded to an integer
  with an error of at most one half, and the exponent leaves the scaled fraction
  between \<open>2 ^ 52\<close> and \<open>2 ^ 53\<close>: so \<open>round_double\<close> returns a number with 53
  significant bits whose relative error is at most \<open>2 ^ - 53\<close>, and it returns
  an integer below \<open>2 ^ 53\<close> unchanged.
\<close>

lemma scale2_pos: "0 < d \<Longrightarrow> 0 < snd (scale2 n d e)"
  by (simp add: scale2_def)

lemma scale2_nonneg: "0 \<le> n \<Longrightarrow> 0 \<le> fst (scale2 n d e)"
  by (simp add: scale2_def)

lemma scale2_ratio:
  "real_of_int (fst (scale2 n d e)) / real_of_int (snd (scale2 n d e))
     = real_of_int n / real_of_int d * 2 powi (- e)"
  by (simp add: scale2_def power_int_def field_simps)

lemma round_half_even_error:
  assumes "0 < d"
  shows "\<bar>real_of_int (round_half_even n d) - real_of_int n / real_of_int d\<bar> \<le> 1 / 2"
proof -
  have n: "real_of_int n / real_of_int d
             = real_of_int (n div d) + real_of_int (n mod d) / real_of_int d"
  proof -
    have "n = d * (n div d) + n mod d" by simp
    then have "real_of_int n = real_of_int d * real_of_int (n div d) + real_of_int (n mod d)"
      by (metis of_int_add of_int_mult)
    with assms show ?thesis by (simp add: field_simps)
  qed
  have r0: "0 \<le> n mod d" and r1: "n mod d < d" using assms by simp_all
  let ?f = "real_of_int (n mod d) / real_of_int d"
  have f0: "0 \<le> ?f" using r0 assms by simp
  have f1: "?f < 1" using r1 assms by simp
  have lt: "2 * (n mod d) < d \<Longrightarrow> ?f < 1 / 2"
  proof -
    assume "2 * (n mod d) < d"
    then have "2 * real_of_int (n mod d) < real_of_int d" by linarith
    with assms show ?thesis by (simp add: field_simps)
  qed
  have gt: "2 * (n mod d) > d \<Longrightarrow> ?f > 1 / 2"
  proof -
    assume "2 * (n mod d) > d"
    then have "2 * real_of_int (n mod d) > real_of_int d" by linarith
    with assms show ?thesis by (simp add: field_simps)
  qed
  have eq: "\<not> 2 * (n mod d) < d \<Longrightarrow> \<not> 2 * (n mod d) > d \<Longrightarrow> ?f = 1 / 2"
  proof -
    assume "\<not> 2 * (n mod d) < d" "\<not> 2 * (n mod d) > d"
    then have "2 * real_of_int (n mod d) = real_of_int d" by linarith
    with assms show ?thesis by (simp add: field_simps)
  qed
  consider "2 * (n mod d) < d" | "2 * (n mod d) > d"
    | "\<not> 2 * (n mod d) < d" "\<not> 2 * (n mod d) > d"
    by linarith
  then show ?thesis
  proof cases
    case 1
    then have "round_half_even n d = n div d" by (simp add: round_half_even_def)
    with lt[OF 1] f0 show ?thesis unfolding n by simp
  next
    case 2
    then have "round_half_even n d = n div d + 1" by (simp add: round_half_even_def)
    with gt[OF 2] f1 show ?thesis unfolding n by simp
  next
    case 3
    then have "round_half_even n d = n div d \<or> round_half_even n d = n div d + 1"
      by (simp add: round_half_even_def Let_def)
    with eq[OF 3] show ?thesis unfolding n by auto
  qed
qed

lemma round_half_even_exact:
  assumes "0 < d" and "real_of_int n / real_of_int d = real_of_int z"
  shows "round_half_even n d = z"
proof -
  from assms have "real_of_int n = real_of_int (z * d)" by (simp add: field_simps)
  then have "n = z * d" by linarith
  with assms(1) show ?thesis by (simp add: round_half_even_def)
qed

lemma round_half_even_nonneg: "0 \<le> n \<Longrightarrow> 0 < d \<Longrightarrow> 0 \<le> round_half_even n d"
  by (simp add: round_half_even_def Let_def pos_imp_zdiv_nonneg_iff)

lemma two_powi_pos: "(0::real) < 2 powi z"
  by (simp add: power_int_def)

lemma two_powi_add: "(2::real) powi (x + y) = 2 powi x * 2 powi y"
  by (simp add: power_int_add)

lemma two_powi_nat: "0 \<le> z \<Longrightarrow> (2::real) powi z = 2 ^ nat z"
  by (simp add: power_int_def)

lemma bitlen_real_bounds:
  assumes "0 < a"
  shows "2 powi (bitlen a - 1) \<le> real_of_int a" and "real_of_int a < 2 powi (bitlen a)"
proof -
  from bitlen_bounds[OF assms]
  have l: "2 ^ nat (bitlen a - 1) \<le> a" and u: "a < 2 ^ nat (bitlen a)" by simp_all
  have b: "1 \<le> bitlen a" using assms bitlen_eq_zero_iff[of a] bitlen_nonneg[of a] by linarith
  from l have "real_of_int (2 ^ nat (bitlen a - 1)) \<le> real_of_int a" by linarith
  then show "2 powi (bitlen a - 1) \<le> real_of_int a" using b by (simp add: two_powi_nat)
  from u have "real_of_int a < real_of_int (2 ^ nat (bitlen a))" by linarith
  then show "real_of_int a < 2 powi (bitlen a)" using b by (simp add: two_powi_nat)
qed

lemma quotient_between_powers:
  assumes "0 < a" and "0 < d"
  shows "2 powi (bitlen a - bitlen d - 1) < real_of_int a / real_of_int d"
    and "real_of_int a / real_of_int d < 2 powi (bitlen a - bitlen d + 1)"
proof -
  note A = bitlen_real_bounds[OF assms(1)] and D = bitlen_real_bounds[OF assms(2)]
  have dpos: "0 < real_of_int d" using assms(2) by simp
  have "2 powi (bitlen a - bitlen d - 1) * real_of_int d
          < 2 powi (bitlen a - bitlen d - 1) * 2 powi (bitlen d)"
    using D(2) two_powi_pos[of "bitlen a - bitlen d - 1"] by simp
  also have "\<dots> = 2 powi (bitlen a - 1)"
    using two_powi_add[of "bitlen a - bitlen d - 1" "bitlen d"] by simp
  also have "\<dots> \<le> real_of_int a" by (rule A(1))
  finally show "2 powi (bitlen a - bitlen d - 1) < real_of_int a / real_of_int d"
    using dpos by (simp add: field_simps)
  have "real_of_int a < 2 powi (bitlen a)" by (rule A(2))
  also have "\<dots> = 2 powi (bitlen a - bitlen d + 1) * 2 powi (bitlen d - 1)"
    using two_powi_add[of "bitlen a - bitlen d + 1" "bitlen d - 1"] by simp
  also have "\<dots> \<le> 2 powi (bitlen a - bitlen d + 1) * real_of_int d"
    using D(1) two_powi_pos[of "bitlen a - bitlen d + 1"] by simp
  finally show "real_of_int a / real_of_int d < 2 powi (bitlen a - bitlen d + 1)"
    using dpos by (simp add: field_simps)
qed

lemma rounding_exponent_bounds:
  assumes "0 < a" and "0 < d"
  shows "2 ^ 52 \<le> real_of_int a / real_of_int d * 2 powi (- rounding_exponent a d)"
    and "real_of_int a / real_of_int d * 2 powi (- rounding_exponent a d) < 2 ^ 53"
proof -
  define e0 where "e0 = bitlen a - bitlen d - 53"
  define x where "x = real_of_int a / real_of_int d"
  define y where "y = x * 2 powi (- e0)"
  note Q = quotient_between_powers[OF assms, folded x_def]
  have s: "real_of_int (fst (scale2 a d e0)) / real_of_int (snd (scale2 a d e0)) = y"
    unfolding y_def x_def by (rule scale2_ratio)
  have sp: "0 < real_of_int (snd (scale2 a d e0))" using scale2_pos[OF assms(2)] by simp
  have c: "fst (scale2 a d e0) \<ge> 2 ^ 53 * snd (scale2 a d e0) \<longleftrightarrow> 2 ^ 53 \<le> y"
  proof -
    have "fst (scale2 a d e0) \<ge> 2 ^ 53 * snd (scale2 a d e0)
            \<longleftrightarrow> real_of_int (2 ^ 53 * snd (scale2 a d e0)) \<le> real_of_int (fst (scale2 a d e0))"
      by linarith
    also have "\<dots> \<longleftrightarrow> 2 ^ 53 \<le> real_of_int (fst (scale2 a d e0))
                                   / real_of_int (snd (scale2 a d e0))"
      using sp by (simp add: field_simps)
    finally show ?thesis unfolding s .
  qed
  have lo: "2 ^ 52 < y"
  proof -
    have "(bitlen a - bitlen d - 1) + (- e0) = 52" by (simp add: e0_def)
    then have "2 powi (bitlen a - bitlen d - 1) * 2 powi (- e0) = (2::real) powi 52"
      by (simp only: two_powi_add[symmetric])
    then have "(2::real) ^ 52 = 2 powi (bitlen a - bitlen d - 1) * 2 powi (- e0)"
      by simp
    also have "\<dots> < x * 2 powi (- e0)"
      by (rule mult_strict_right_mono[OF Q(1) two_powi_pos])
    finally show ?thesis unfolding y_def .
  qed
  have hi: "y < 2 ^ 54"
  proof -
    have "(bitlen a - bitlen d + 1) + (- e0) = 54" by (simp add: e0_def)
    then have e: "2 powi (bitlen a - bitlen d + 1) * 2 powi (- e0) = (2::real) powi 54"
      by (simp only: two_powi_add[symmetric])
    have "x * 2 powi (- e0) < 2 powi (bitlen a - bitlen d + 1) * 2 powi (- e0)"
      by (rule mult_strict_right_mono[OF Q(2) two_powi_pos])
    also have "\<dots> = 2 ^ 54" unfolding e by simp
    finally show ?thesis unfolding y_def .
  qed
  have half: "x * 2 powi (- (e0 + 1)) = y / 2"
  proof -
    have "- (e0 + 1) = (- e0) + (- 1)" by simp
    then have "(2::real) powi (- (e0 + 1)) = 2 powi (- e0) * 2 powi (- 1)"
      by (simp only: two_powi_add)
    then show ?thesis unfolding y_def by simp
  qed
  have r: "rounding_exponent a d
             = (if fst (scale2 a d e0) \<ge> 2 ^ 53 * snd (scale2 a d e0) then e0 + 1 else e0)"
    unfolding rounding_exponent_def e0_def Let_def ..
  show "2 ^ 52 \<le> real_of_int a / real_of_int d * 2 powi (- rounding_exponent a d)"
  proof (cases "fst (scale2 a d e0) \<ge> 2 ^ 53 * snd (scale2 a d e0)")
    case True
    with c have "2 ^ 53 \<le> y" by simp
    then have "2 ^ 52 \<le> y / 2" by simp
    with True show ?thesis unfolding r x_def[symmetric] half[symmetric] by simp
  next
    case False
    with lo show ?thesis unfolding r x_def[symmetric] y_def by simp
  qed
  show "real_of_int a / real_of_int d * 2 powi (- rounding_exponent a d) < 2 ^ 53"
  proof (cases "fst (scale2 a d e0) \<ge> 2 ^ 53 * snd (scale2 a d e0)")
    case True
    from hi have "y / 2 < 2 ^ 53" by simp
    with True show ?thesis unfolding r x_def[symmetric] half[symmetric] by simp
  next
    case False
    with c have "y < 2 ^ 53" by simp
    with False show ?thesis unfolding r x_def[symmetric] y_def by simp
  qed
qed

lemma round_double_neg:
  "round_double (- n) d k = (- fst (round_double n d k), snd (round_double n d k))"
  by (simp add: round_double_def Let_def)

lemma double_val_neg: "double_val (- m, e) = - double_val (m, e)"
  by (simp add: double_val_def)

lemma round_double_nonneg: 
  assumes "0 \<le> n" and "0 < d"
  shows "0 \<le> fst (round_double n d k)"
proof (cases "n = 0")
  case True
  then show ?thesis by (simp add: round_double_def)
next
  case False
  with assms(1) have "0 < n" by simp
  then have "fst (round_double n d k)
               = round_half_even (fst (scale2 n d (rounding_exponent n d)))
                   (snd (scale2 n d (rounding_exponent n d)))"
    by (simp add: round_double_def Let_def)
  with round_half_even_nonneg[OF scale2_nonneg[OF assms(1)] scale2_pos[OF assms(2)]]
  show ?thesis by simp
qed

text \<open>What rounding a positive fraction does, in one place.\<close>

lemma round_double_pos_cases:
  assumes "0 < n" and "0 < d"
  obtains m e x where "round_double n d k = (m, e + k)"
    and "x = real_of_int n / real_of_int d * 2 powi (- e)"
    and "2 ^ 52 \<le> x" and "x < 2 ^ 53"
    and "\<bar>real_of_int m - x\<bar> \<le> 1 / 2"
    and "\<And>z. x = real_of_int z \<Longrightarrow> m = z"
proof -
  define e where "e = rounding_exponent n d"
  define m where "m = round_half_even (fst (scale2 n d e)) (snd (scale2 n d e))"
  define x where "x = real_of_int n / real_of_int d * 2 powi (- e)"
  have r: "real_of_int (fst (scale2 n d e)) / real_of_int (snd (scale2 n d e)) = x"
    unfolding x_def by (rule scale2_ratio)
  have p: "0 < snd (scale2 n d e)" by (rule scale2_pos[OF assms(2)])
  have 1: "round_double n d k = (m, e + k)"
    using assms(1) by (simp add: round_double_def Let_def m_def e_def)
  have 2: "2 ^ 52 \<le> x" and 3: "x < 2 ^ 53"
    unfolding x_def e_def by (rule rounding_exponent_bounds[OF assms])+
  have 4: "\<bar>real_of_int m - x\<bar> \<le> 1 / 2"
    unfolding m_def r[symmetric] by (rule round_half_even_error[OF p])
  have 5: "m = z" if "x = real_of_int z" for z
    unfolding m_def using that r by (intro round_half_even_exact[OF p]) simp
  from 1 x_def 2 3 4 5 show thesis by (rule that)
qed

lemma round_double_error_pos:
  assumes "0 < n" and "0 < d"
  shows "\<bar>double_val (round_double n d k) - real_of_int n / real_of_int d * 2 powi k\<bar>
           \<le> real_of_int n / real_of_int d * 2 powi k / 2 ^ 53"
proof -
  from assms obtain m e x where rd: "round_double n d k = (m, e + k)"
    and x: "x = real_of_int n / real_of_int d * 2 powi (- e)"
    and lo: "2 ^ 52 \<le> x" and "x < 2 ^ 53" and err: "\<bar>real_of_int m - x\<bar> \<le> 1 / 2"
    by (rule round_double_pos_cases[of n d k])
  define P :: real where "P = 2 powi (e + k)"
  have P: "0 < P" unfolding P_def by (rule two_powi_pos)
  have "(2::real) powi (- e) * 2 powi (e + k) = 2 powi k"
    using two_powi_add[of "- e" "e + k"] by simp
  then have t: "real_of_int n / real_of_int d * 2 powi k = x * P"
    unfolding x P_def by simp
  have v: "double_val (round_double n d k) = real_of_int m * P"
    unfolding rd double_val_def P_def by simp
  have "\<bar>real_of_int m * P - x * P\<bar> = \<bar>real_of_int m - x\<bar> * P"
    using P by (simp add: abs_mult left_diff_distrib[symmetric])
  also have "\<dots> \<le> 1 / 2 * P" using err P by (intro mult_right_mono) simp_all
  also have "\<dots> \<le> x / 2 ^ 53 * P" using lo P by (intro mult_right_mono) simp_all
  finally show ?thesis unfolding v t by simp
qed

lemma round_double_error:
  assumes "0 < d"
  shows "\<bar>double_val (round_double n d k) - real_of_int n / real_of_int d * 2 powi k\<bar>
           \<le> \<bar>real_of_int n / real_of_int d\<bar> * 2 powi k / 2 ^ 53"
proof -
  consider "n = 0" | "0 < n" | "n < 0" by linarith
  then show ?thesis
  proof cases
    case 1
    then show ?thesis by (simp add: round_double_def double_val_def)
  next
    case 2
    with assms have "\<bar>real_of_int n / real_of_int d\<bar> = real_of_int n / real_of_int d"
      by simp
    then show ?thesis using round_double_error_pos[OF 2 assms, of k] by (simp only:)
  next
    case 3
    then have p: "0 < - n" by simp
    from 3 assms have a: "\<bar>real_of_int n / real_of_int d\<bar> = real_of_int (- n) / real_of_int d"
      by (simp add: abs_if field_simps)
    have v: "double_val (round_double n d k) = - double_val (round_double (- n) d k)"
      using round_double_neg[of "- n" d k] double_val_neg[of "fst (round_double (- n) d k)"]
      by (simp add: double_val_def)
    have t: "real_of_int n / real_of_int d * 2 powi k
               = - (real_of_int (- n) / real_of_int d * 2 powi k)"
      by simp
    have f: "\<bar>- A - - B\<bar> = \<bar>A - B\<bar>" for A B :: real by simp
    from round_double_error_pos[OF p assms, of k] show ?thesis
      unfolding a v t f .
  qed
qed

lemma round_double_exact_pos:
  assumes "0 < n" and "0 < d"
    and q: "real_of_int n / real_of_int d * 2 powi k = real_of_int q" and "q < 2 ^ 53"
  shows "double_val (round_double n d k) = real_of_int q"
proof -
  obtain m e x where rd: "round_double n d k = (m, e + k)"
    and x: "x = real_of_int n / real_of_int d * 2 powi (- e)"
    and lo: "2 ^ 52 \<le> x" and "x < 2 ^ 53" and "\<bar>real_of_int m - x\<bar> \<le> 1 / 2"
    and ex: "\<And>z. x = real_of_int z \<Longrightarrow> m = z"
    by (rule round_double_pos_cases[OF assms(1,2), of k]) blast
  define P :: real where "P = 2 powi (e + k)"
  have P: "0 < P" unfolding P_def by (rule two_powi_pos)
  have "(2::real) powi (- e) * 2 powi (e + k) = 2 powi k"
    using two_powi_add[of "- e" "e + k"] by simp
  then have "real_of_int n / real_of_int d * 2 powi k = x * P"
    unfolding x P_def by simp
  with q have xP: "x * P = real_of_int q" by simp
  have "e + k \<le> 0"
  proof (rule ccontr)
    assume "\<not> e + k \<le> 0"
    then have "1 \<le> nat (e + k)" and "0 \<le> e + k" by simp_all
    then have "(2::real) ^ 1 \<le> 2 ^ nat (e + k)" by (intro power_increasing) simp_all
    with \<open>0 \<le> e + k\<close> have "2 \<le> P" unfolding P_def by (simp add: two_powi_nat)
    with lo have "2 ^ 52 * 2 \<le> x * P" by (intro mult_mono) simp_all
    with xP have "(2::real) ^ 53 \<le> real_of_int q" by simp
    then have "real_of_int (2 ^ 53) \<le> real_of_int q" by simp
    then have "2 ^ 53 \<le> q" by (simp only: of_int_le_iff)
    with assms(4) show False by simp
  qed
  define j where "j = nat (- (e + k))"
  from \<open>e + k \<le> 0\<close> have "(2::real) powi (- (e + k)) = 2 ^ j"
    unfolding j_def by (intro two_powi_nat) simp
  moreover have "(2::real) powi (e + k) * 2 powi (- (e + k)) = 1"
    using two_powi_add[of "e + k" "- (e + k)"] by simp
  ultimately have Pj: "P * 2 ^ j = 1" unfolding P_def by simp
  have "x = x * (P * 2 ^ j)" unfolding Pj by simp
  also have "\<dots> = real_of_int q * 2 ^ j" using xP by (simp add: mult.assoc[symmetric])
  also have "\<dots> = real_of_int (q * 2 ^ j)" by simp
  finally have "m = q * 2 ^ j" by (rule ex)
  then have "double_val (round_double n d k) = real_of_int q * (2 ^ j * P)"
    unfolding rd double_val_def P_def by simp
  also have "2 ^ j * P = 1" using Pj by (simp add: mult.commute)
  finally show ?thesis by simp
qed

lemma round_double_exact:
  assumes "0 < d"
    and q: "real_of_int n / real_of_int d * 2 powi k = real_of_int q" and b: "\<bar>q\<bar> < 2 ^ 53"
  shows "double_val (round_double n d k) = real_of_int q"
proof -
  have dp: "0 < real_of_int d" using assms(1) by simp
  have kp: "(0::real) < 2 powi k" by (rule two_powi_pos)
  consider "n = 0" | "0 < n" | "n < 0" by linarith
  then show ?thesis
  proof cases
    case 1
    with q have "q = 0" by simp
    with 1 show ?thesis by (simp add: round_double_def double_val_def)
  next
    case 2
    from b have "q < 2 ^ 53" by simp
    with 2 assms(1) q show ?thesis by (rule round_double_exact_pos)
  next
    case 3
    then have p: "0 < - n" by simp
    from q have q': "real_of_int (- n) / real_of_int d * 2 powi k = real_of_int (- q)"
      by simp
    from b have "- q < 2 ^ 53" by simp
    with p assms(1) q' have "double_val (round_double (- n) d k) = real_of_int (- q)"
      by (rule round_double_exact_pos)
    moreover have "double_val (round_double n d k) = - double_val (round_double (- n) d k)"
      using round_double_neg[of "- n" d k] double_val_neg[of "fst (round_double (- n) d k)"]
      by (simp add: double_val_def)
    ultimately show ?thesis by simp
  qed
qed

lemma int_of_float_floor:
  assumes "0 \<le> fst x"
  shows "int_of_float x = \<lfloor>double_val x\<rfloor>"
proof (cases "0 \<le> snd x")
  case True
  then have "double_val x = real_of_int (fst x * 2 ^ nat (snd x))"
    by (simp add: double_val_def two_powi_nat)
  then have "\<lfloor>double_val x\<rfloor> = fst x * 2 ^ nat (snd x)" by (simp only: floor_of_int)
  with True show ?thesis by (simp add: int_of_float_def)
next
  case False
  then have "double_val x = real_of_int (fst x) / real_of_int (2 ^ nat (- snd x))"
    by (simp add: double_val_def power_int_def field_simps power_inverse)
  then have "\<lfloor>double_val x\<rfloor> = fst x div 2 ^ nat (- snd x)"
    by (simp only: floor_divide_of_int_eq)
  moreover from assms have "sgn (fst x) * (\<bar>fst x\<bar> div 2 ^ nat (- snd x)) = fst x div 2 ^ nat (- snd x)"
    by (cases "fst x = 0") (simp_all add: sgn_if)
  ultimately show ?thesis using False by (simp add: int_of_float_def)
qed

lemma int_of_float_neg: "int_of_float (- m, e) = - int_of_float (m, e)"
  by (simp add: int_of_float_def sgn_if)

subsection \<open>The duration in minutes\<close>

text \<open>
  Within \<open>2 ^ 52\<close> seconds the float division by 60 followed by \<^verbatim>\<open>int\<close> is the
  integer division that cuts towards zero. Two values of \<^verbatim>\<open>datetime\<close> are
  less than \<open>2 ^ 39\<close> seconds apart.
\<close>

lemma float_of_int_val: "\<bar>n\<bar> < 2 ^ 53 \<Longrightarrow> double_val (float_of_int n) = real_of_int n"
  unfolding float_of_int_def by (rule round_double_exact) simp_all

lemma float_of_int_nonneg: "0 \<le> n \<Longrightarrow> 0 \<le> fst (float_of_int n)"
  unfolding float_of_int_def by (rule round_double_nonneg) simp_all

lemma float_of_int_60: "float_of_int 60 = (8444249301319680, - 47)"
  by code_simp

lemma float_of_int_100: "float_of_int 100 = (7036874417766400, - 46)"
  by code_simp

lemma minutes_between_nonneg:
  assumes "0 \<le> s" and "s < 2 ^ 52"
  shows "minutes_between s = s div 60"
proof -
  define x where "x = float_of_int s"
  define z where "z = round_double (fst x) 8444249301319680 (snd x + 47)"
  define y where "y = double_val z"
  have xv: "real_of_int (fst x) * 2 powi (snd x) = real_of_int s"
    using float_of_int_val[of s] assms unfolding x_def double_val_def by simp
  have xs: "0 \<le> fst x" unfolding x_def using assms(1) by (rule float_of_int_nonneg)
  have m: "minutes_between s = int_of_float z"
    unfolding minutes_between_def float_div_def float_of_int_60 z_def x_def by simp
  have zs: "0 \<le> fst z" unfolding z_def using xs by (rule round_double_nonneg) simp
  have "(2::real) powi (snd x + 47) = 2 powi (snd x) * 2 ^ 47"
    using two_powi_add[of "snd x" 47] by simp
  then have t: "real_of_int (fst x) / real_of_int 8444249301319680 * 2 powi (snd x + 47)
             = real_of_int s / 60"
    using xv by (simp add: field_simps)
  have err: "\<bar>y - real_of_int s / 60\<bar> \<le> \<bar>real_of_int s / 60\<bar> / 2 ^ 53"
  proof -
    have a: "\<bar>real_of_int (fst x) / real_of_int 8444249301319680\<bar> * 2 powi (snd x + 47)
            = real_of_int (fst x) / real_of_int 8444249301319680 * 2 powi (snd x + 47)"
      using xs by simp
    have b: "\<bar>real_of_int s / 60\<bar> = real_of_int s / 60" using assms(1) by simp
    from round_double_error[of 8444249301319680 "fst x" "snd x + 47"]
    show ?thesis unfolding a t b y_def z_def by simp
  qed
  have sq: "real_of_int s = 60 * real_of_int (s div 60) + real_of_int (s mod 60)"
  proof -
    have "s = 60 * (s div 60) + s mod 60" by simp
    then show ?thesis by (metis of_int_add of_int_mult of_int_numeral)
  qed
  have "\<lfloor>y\<rfloor> = s div 60"
  proof (cases "s mod 60 = 0")
    case True
    with sq have "real_of_int s / 60 = real_of_int (s div 60)" by simp
    with t have "real_of_int (fst x) / real_of_int 8444249301319680 * 2 powi (snd x + 47)
                   = real_of_int (s div 60)" by simp
    moreover have "\<bar>s div 60\<bar> < 2 ^ 53" using assms by simp
    ultimately have "y = real_of_int (s div 60)"
      unfolding y_def z_def by (intro round_double_exact) simp_all
    then show ?thesis by simp
  next
    case False
    then have r: "1 \<le> s mod 60" "s mod 60 \<le> 59"
      using pos_mod_sign[of 60 s] pos_mod_bound[of 60 s] by linarith+
    have "real_of_int s < 2 ^ 52" using assms(2) by (metis of_int_less_iff of_int_numeral of_int_power)
    moreover have "0 \<le> real_of_int s" using assms(1) by simp
    ultimately have "\<bar>real_of_int s / 60\<bar> / 2 ^ 53 < 1 / 120" by simp
    with err have e: "\<bar>y - real_of_int s / 60\<bar> < 1 / 120" by linarith
    from r have "1 \<le> real_of_int (s mod 60)" "real_of_int (s mod 60) \<le> 59" by linarith+
    with sq have "real_of_int (s div 60) + 1 / 60 \<le> real_of_int s / 60"
      and "real_of_int s / 60 \<le> real_of_int (s div 60) + 59 / 60" by simp_all
    with e have "real_of_int (s div 60) \<le> y" and "y < real_of_int (s div 60) + 1"
      by linarith+
    then show ?thesis by (simp add: floor_unique)
  qed
  with m zs show ?thesis unfolding y_def by (simp add: int_of_float_floor)
qed

lemma minutes_between_neg: "minutes_between (- s) = - minutes_between s"
proof -
  have "float_of_int (- s) = (- fst (float_of_int s), snd (float_of_int s))"
    unfolding float_of_int_def by (rule round_double_neg)
  then show ?thesis
    unfolding minutes_between_def float_div_def float_of_int_60
    using round_double_neg[of "fst (float_of_int s)" 8444249301319680 "snd (float_of_int s) + 47"]
      int_of_float_neg
    by simp
qed

lemma minutes_between_truncates:
  assumes "\<bar>s\<bar> < 2 ^ 52"
  shows "minutes_between s = sgn s * (\<bar>s\<bar> div 60)"
proof (cases "0 \<le> s")
  case True
  with assms minutes_between_nonneg[of s] show ?thesis by (cases "s = 0") (simp_all add: sgn_if)
next
  case False
  with assms have "minutes_between (- s) = (- s) div 60" by (intro minutes_between_nonneg) simp_all
  with False minutes_between_neg[of s] show ?thesis by (simp add: sgn_if)
qed

lemma minutes_between_90: "minutes_between 90 = 1"
  by code_simp

lemma minutes_between_0: "minutes_between 0 = 0"
  by code_simp

subsection \<open>The progress towards the next level\<close>

text \<open>
  For \<open>0 \<le> v < r\<close> the two roundings of \<^verbatim>\<open>int((v / r) * 100)\<close> move the
  product by less than \<open>1 / r\<close>: the result is the whole part of the exact
  percentage, or one less when the exact percentage is a whole number.
\<close>

lemma double_val_nonneg: "0 \<le> fst x \<Longrightarrow> 0 \<le> double_val x"
  by (simp add: double_val_def two_powi_pos less_imp_le)

lemma progress_float:
  assumes "0 \<le> v" and "v < r" and "r \<le> 2 ^ 40"
  defines "p \<equiv> int_of_float (float_mul (int_truediv v r) (float_of_int 100))"
  shows "(100 * v) div r - 1 \<le> p" and "p \<le> (100 * v) div r"
    and "\<not> r dvd 100 * v \<Longrightarrow> p = (100 * v) div r"
    and "0 \<le> p" and "p < 100"
proof -
  have rp: "0 < r" using assms by simp
  define a where "a = round_double v r 0"
  define z where "z = round_double (fst a * 7036874417766400) 1 (snd a + - 46)"
  define f1 where "f1 = double_val a"
  define y where "y = double_val z"
  define X where "X = real_of_int (100 * v) / real_of_int r"
  define k where "k = (100 * v) div r"
  define eps :: real where "eps = 1 / 2 ^ 53"
  have pz: "p = int_of_float z"
    unfolding p_def z_def a_def float_mul_def int_truediv_def float_of_int_100 using rp by simp
  have as: "0 \<le> fst a" unfolding a_def using assms(1) rp by (rule round_double_nonneg)
  then have zs: "0 \<le> fst z" unfolding z_def by (intro round_double_nonneg) simp_all
  have py: "p = \<lfloor>y\<rfloor>" unfolding pz y_def using zs by (rule int_of_float_floor)
  have y0: "0 \<le> y" unfolding y_def using zs by (rule double_val_nonneg)
  have f0: "0 \<le> f1" unfolding f1_def using as by (rule double_val_nonneg)
  have q0: "0 \<le> real_of_int v / real_of_int r" using assms(1) rp by simp
  have q1: "real_of_int v / real_of_int r < 1" using assms(2) rp by simp
  have e1: "\<bar>f1 - real_of_int v / real_of_int r\<bar> \<le> eps"
  proof -
    from round_double_error[OF rp, of v 0]
    have "\<bar>f1 - real_of_int v / real_of_int r\<bar> \<le> real_of_int v / real_of_int r / 2 ^ 53"
      unfolding f1_def a_def using q0 by simp
    also have "\<dots> \<le> 1 / 2 ^ 53" using q1 by (intro divide_right_mono) simp_all
    finally show ?thesis unfolding eps_def .
  qed
  have X: "X = 100 * (real_of_int v / real_of_int r)" unfolding X_def by simp
  have t: "real_of_int (fst a * 7036874417766400) / real_of_int 1 * 2 powi (snd a + - 46)
             = 100 * f1"
  proof -
    have "(2::real) powi (snd a + - 46) = 2 powi (snd a) * 2 powi (- 46)"
      by (rule two_powi_add)
    moreover have "(7036874417766400::real) * 2 powi (- 46) = 100"
      by (simp add: power_int_minus)
    ultimately show ?thesis unfolding f1_def double_val_def by simp
  qed
  have e2: "\<bar>y - 100 * f1\<bar> \<le> 100 * f1 / 2 ^ 53"
  proof -
    have "\<bar>real_of_int (fst a * 7036874417766400) / real_of_int 1\<bar> * 2 powi (snd a + - 46)
            = real_of_int (fst a * 7036874417766400) / real_of_int 1 * 2 powi (snd a + - 46)"
      using as by simp
    with round_double_error[of 1 "fst a * 7036874417766400" "snd a + - 46"]
    show ?thesis unfolding y_def z_def t by simp
  qed
  have eps: "eps = 1 / 2 ^ 53" by (rule eps_def)
  from e1 q1 have "f1 \<le> 1 + eps" by linarith
  with e2 have e3: "\<bar>y - 100 * f1\<bar> \<le> 200 * eps" unfolding eps by simp
  from e1 have "\<bar>100 * f1 - X\<bar> \<le> 100 * eps" unfolding X by linarith
  with e3 have err: "\<bar>y - X\<bar> \<le> 300 * eps" by linarith
  have small: "300 * eps < 1 / real_of_int r"
  proof -
    have "real_of_int r \<le> 2 ^ 40" using assms(3)
      by (metis of_int_le_iff of_int_numeral of_int_power)
    then have "300 * eps * real_of_int r \<le> 300 * eps * 2 ^ 40"
      unfolding eps by (intro mult_left_mono) simp_all
    also have "\<dots> < 1" unfolding eps by simp
    finally show ?thesis using rp by (simp add: field_simps)
  qed
  have dm: "real_of_int (100 * v) = real_of_int r * real_of_int k + real_of_int ((100 * v) mod r)"
  proof -
    have "100 * v = r * k + (100 * v) mod r" unfolding k_def by simp
    then show ?thesis by (metis of_int_add of_int_mult)
  qed
  have Xk: "X = real_of_int k + real_of_int ((100 * v) mod r) / real_of_int r"
    unfolding X_def dm using rp by (simp add: field_simps)
  have m0: "0 \<le> (100 * v) mod r" and m1: "(100 * v) mod r \<le> r - 1"
    using rp pos_mod_bound[of r "100 * v"] by simp_all
  have X0: "real_of_int k \<le> X" unfolding Xk using m0 rp by simp
  have X1: "X \<le> real_of_int k + 1 - 1 / real_of_int r"
  proof -
    from m1 have "real_of_int ((100 * v) mod r) \<le> real_of_int r - 1" by linarith
    then have "real_of_int ((100 * v) mod r) / real_of_int r \<le> (real_of_int r - 1) / real_of_int r"
      using rp by (intro divide_right_mono) simp_all
    also have "\<dots> = 1 - 1 / real_of_int r" using rp by (simp add: field_simps)
    finally show ?thesis unfolding Xk by simp
  qed
  have rinv: "1 / real_of_int r \<le> 1" using rp by simp
  have k1: "real_of_int (k + 1) = real_of_int k + 1" "real_of_int (k - 1) = real_of_int k - 1"
    by simp_all
  from err X1 small have "y < real_of_int (k + 1)" unfolding k1 by linarith
  then have "\<lfloor>y\<rfloor> < k + 1" by (simp only: floor_less_iff)
  then show up: "p \<le> (100 * v) div r" unfolding py k_def by simp
  from err X0 small rinv have "real_of_int (k - 1) \<le> y" unfolding k1 by linarith
  then have "k - 1 \<le> \<lfloor>y\<rfloor>" by (simp only: le_floor_iff)
  then show "(100 * v) div r - 1 \<le> p" unfolding py k_def .
  show "0 \<le> p" unfolding py using y0 by simp
  from X0 q1 have "real_of_int k < 100" unfolding X by linarith
  then have "k < 100" by linarith
  with up show "p < 100" unfolding k_def by simp
  show "p = (100 * v) div r" if "\<not> r dvd 100 * v"
  proof -
    from that have "(100 * v) mod r \<noteq> 0" by (simp add: dvd_eq_mod_eq_0)
    with m0 have "1 \<le> real_of_int ((100 * v) mod r)" by linarith
    then have "1 / real_of_int r \<le> real_of_int ((100 * v) mod r) / real_of_int r"
      using rp by (intro divide_right_mono) simp_all
    then have "real_of_int k + 1 / real_of_int r \<le> X" unfolding Xk by simp
    with err small have "real_of_int k \<le> y" by linarith
    then have "k \<le> \<lfloor>y\<rfloor>" by (simp only: le_floor_iff)
    with up show ?thesis unfolding py k_def by simp
  qed
qed

subsection \<open>Whole percentages\<close>

text \<open>
  \<open>round_double\<close> depends on its fraction only through the value of the
  fraction, so a quotient \<open>v / r\<close> that is a whole percentage \<open>k\<close> is rounded as
  \<open>k / 100\<close> is. Of the hundred products \<^verbatim>\<open>(k / 100) * 100\<close> three fall just
  below \<open>k\<close>: those of 29, 57 and 58.
\<close>

lemma div_mod_ratio:
  fixes n d n' d' :: int
  assumes "0 < d" and "0 < d'" and "n * d' = n' * d"
  shows "n div d = n' div d'" and "(n mod d) * d' = (n' mod d') * d"
proof -
  have "real_of_int n * real_of_int d' = real_of_int n' * real_of_int d"
    using assms(3) by (metis of_int_mult)
  then have "real_of_int n / real_of_int d = real_of_int n' / real_of_int d'"
    using assms(1,2) by (simp add: field_simps)
  then have "\<lfloor>real_of_int n / real_of_int d\<rfloor> = \<lfloor>real_of_int n' / real_of_int d'\<rfloor>"
    by simp
  then show q: "n div d = n' div d'" by (simp only: floor_divide_of_int_eq)
  define k where "k = n div d"
  have a: "n mod d = n - d * k" unfolding k_def by (simp add: minus_mult_div_eq_mod)
  have b: "n' mod d' = n' - d' * k" unfolding k_def q by (simp add: minus_mult_div_eq_mod)
  have "(n - d * k) * d' = n * d' - d * k * d'" by (simp add: algebra_simps)
  also have "\<dots> = n' * d - d' * k * d" unfolding assms(3) by (simp add: algebra_simps)
  also have "\<dots> = (n' - d' * k) * d" by (simp add: algebra_simps)
  finally show "(n mod d) * d' = (n' mod d') * d" unfolding a b .
qed

lemma round_half_even_ratio:
  assumes "0 < d" and "0 < d'" and "n * d' = n' * d"
  shows "round_half_even n d = round_half_even n' d'"
proof -
  note R = div_mod_ratio[OF assms]
  have lt: "2 * (n mod d) < d \<longleftrightarrow> 2 * (n' mod d') < d'"
  proof -
    have "2 * (n mod d) < d \<longleftrightarrow> (2 * (n mod d)) * d' < d * d'"
      using assms(2) by (simp only: mult_less_cancel_right_pos)
    also have "(2 * (n mod d)) * d' = (2 * (n' mod d')) * d" using R(2) by simp
    also have "d * d' = d' * d" by simp
    also have "(2 * (n' mod d')) * d < d' * d \<longleftrightarrow> 2 * (n' mod d') < d'"
      using assms(1) by (simp only: mult_less_cancel_right_pos)
    finally show ?thesis .
  qed
  have gt: "d < 2 * (n mod d) \<longleftrightarrow> d' < 2 * (n' mod d')"
  proof -
    have "d < 2 * (n mod d) \<longleftrightarrow> d * d' < (2 * (n mod d)) * d'"
      using assms(2) by (simp only: mult_less_cancel_right_pos)
    also have "(2 * (n mod d)) * d' = (2 * (n' mod d')) * d" using R(2) by simp
    also have "d * d' = d' * d" by simp
    also have "d' * d < (2 * (n' mod d')) * d \<longleftrightarrow> d' < 2 * (n' mod d')"
      using assms(1) by (simp only: mult_less_cancel_right_pos)
    finally show ?thesis .
  qed
  show ?thesis unfolding round_half_even_def Let_def R(1) lt gt ..
qed

lemma scale2_cross:
  assumes "a * d' = a' * d"
  shows "fst (scale2 a d e) * snd (scale2 a' d' e) = fst (scale2 a' d' e) * snd (scale2 a d e)"
  using assms by (simp add: scale2_def algebra_simps)

lemma exponent_unique:
  fixes x :: real
  assumes "0 < x"
    and "2 ^ 52 \<le> x * 2 powi (- e)" and "x * 2 powi (- e) < 2 ^ 53"
    and "2 ^ 52 \<le> x * 2 powi (- e')" and "x * 2 powi (- e') < 2 ^ 53"
  shows "e = e'"
proof -
  have step: False
    if "e1 < e2" and "2 ^ 52 \<le> x * 2 powi (- e2)" and "x * 2 powi (- e1) < 2 ^ 53"
    for e1 e2 :: int
  proof -
    from that(1) have "1 \<le> nat (e2 - e1)" and "0 \<le> e2 - e1" by simp_all
    then have "(2::real) ^ 1 \<le> 2 ^ nat (e2 - e1)" by (intro power_increasing) simp_all
    with \<open>0 \<le> e2 - e1\<close> have g: "2 \<le> (2::real) powi (e2 - e1)" by (simp add: two_powi_nat)
    have eq: "(2::real) powi (- e1) = 2 powi (- e2) * 2 powi (e2 - e1)"
      using two_powi_add[of "- e2" "e2 - e1"] by simp
    have A: "x * 2 powi (- e1) = (x * 2 powi (- e2)) * 2 powi (e2 - e1)"
      unfolding eq by (simp only: mult.assoc)
    have B: "2 ^ 52 * 2 \<le> (x * 2 powi (- e2)) * 2 powi (e2 - e1)"
      using that(2) g by (intro mult_mono) simp_all
    have C: "(2::real) ^ 53 = 2 ^ 52 * 2" by simp
    have "2 ^ 53 \<le> x * 2 powi (- e1)" unfolding A C by (rule B)
    with that(3) show False by simp
  qed
  show ?thesis
  proof (rule ccontr)
    assume "e \<noteq> e'"
    then consider "e < e'" | "e' < e" by linarith
    then show False
    proof cases
      case 1
      then show False using assms(4,3) by (rule step)
    next
      case 2
      then show False using assms(2,5) by (rule step)
    qed
  qed
qed

lemma rounding_exponent_ratio:
  assumes "0 < a" and "0 < d" and "0 < a'" and "0 < d'" and "a * d' = a' * d"
  shows "rounding_exponent a d = rounding_exponent a' d'"
proof -
  have "real_of_int a * real_of_int d' = real_of_int a' * real_of_int d"
    using assms(5) by (metis of_int_mult)
  then have x: "real_of_int a' / real_of_int d' = real_of_int a / real_of_int d"
    using assms(2,4) by (simp add: field_simps)
  have p: "0 < real_of_int a / real_of_int d" using assms(1,2) by simp
  note B = rounding_exponent_bounds[OF assms(1,2)]
  note B' = rounding_exponent_bounds[OF assms(3,4), unfolded x]
  from p B B' show ?thesis by (rule exponent_unique)
qed

lemma round_double_ratio:
  assumes "0 < d" and "0 < d'" and "n * d' = n' * d"
  shows "round_double n d k = round_double n' d' k"
proof -
  have z: "n = 0 \<longleftrightarrow> n' = 0" using assms by (metis mult_eq_0_iff less_irrefl)
  show ?thesis
  proof (cases "n = 0")
    case True
    with z show ?thesis by (simp add: round_double_def)
  next
    case False
    with z have nz: "n \<noteq> 0" "n' \<noteq> 0" by simp_all
    have "sgn (n * d') = sgn (n' * d)" using assms(3) by simp
    then have s: "sgn n = sgn n'" using assms(1,2) by (simp add: sgn_mult)
    have "\<bar>n * d'\<bar> = \<bar>n' * d\<bar>" using assms(3) by simp
    then have c: "\<bar>n\<bar> * d' = \<bar>n'\<bar> * d" using assms(1,2) by (simp add: abs_mult)
    have e: "rounding_exponent \<bar>n\<bar> d = rounding_exponent \<bar>n'\<bar> d'"
      using nz assms(1,2) c by (intro rounding_exponent_ratio) simp_all
    have r: "round_half_even (fst (scale2 \<bar>n\<bar> d e0)) (snd (scale2 \<bar>n\<bar> d e0))
               = round_half_even (fst (scale2 \<bar>n'\<bar> d' e0)) (snd (scale2 \<bar>n'\<bar> d' e0))" for e0
      by (rule round_half_even_ratio[OF scale2_pos[OF assms(1)] scale2_pos[OF assms(2)]
            scale2_cross[OF c]])
    show ?thesis using nz unfolding round_double_def Let_def e s r by simp
  qed
qed

lemma whole_percent_0:
  "list_all (\<lambda>k. int_of_float (float_mul (int_truediv k 100) (float_of_int 100))
                  = (if k = 29 \<or> k = 57 \<or> k = 58 then k - 1 else k)) [0..9]"
  by code_simp

lemma whole_percent_1:
  "list_all (\<lambda>k. int_of_float (float_mul (int_truediv k 100) (float_of_int 100))
                  = (if k = 29 \<or> k = 57 \<or> k = 58 then k - 1 else k)) [10..19]"
  by code_simp

lemma whole_percent_2:
  "list_all (\<lambda>k. int_of_float (float_mul (int_truediv k 100) (float_of_int 100))
                  = (if k = 29 \<or> k = 57 \<or> k = 58 then k - 1 else k)) [20..29]"
  by code_simp

lemma whole_percent_3:
  "list_all (\<lambda>k. int_of_float (float_mul (int_truediv k 100) (float_of_int 100))
                  = (if k = 29 \<or> k = 57 \<or> k = 58 then k - 1 else k)) [30..39]"
  by code_simp

lemma whole_percent_4:
  "list_all (\<lambda>k. int_of_float (float_mul (int_truediv k 100) (float_of_int 100))
                  = (if k = 29 \<or> k = 57 \<or> k = 58 then k - 1 else k)) [40..49]"
  by code_simp

lemma whole_percent_5:
  "list_all (\<lambda>k. int_of_float (float_mul (int_truediv k 100) (float_of_int 100))
                  = (if k = 29 \<or> k = 57 \<or> k = 58 then k - 1 else k)) [50..59]"
  by code_simp

lemma whole_percent_6:
  "list_all (\<lambda>k. int_of_float (float_mul (int_truediv k 100) (float_of_int 100))
                  = (if k = 29 \<or> k = 57 \<or> k = 58 then k - 1 else k)) [60..69]"
  by code_simp

lemma whole_percent_7:
  "list_all (\<lambda>k. int_of_float (float_mul (int_truediv k 100) (float_of_int 100))
                  = (if k = 29 \<or> k = 57 \<or> k = 58 then k - 1 else k)) [70..79]"
  by code_simp

lemma whole_percent_8:
  "list_all (\<lambda>k. int_of_float (float_mul (int_truediv k 100) (float_of_int 100))
                  = (if k = 29 \<or> k = 57 \<or> k = 58 then k - 1 else k)) [80..89]"
  by code_simp

lemma whole_percent_9:
  "list_all (\<lambda>k. int_of_float (float_mul (int_truediv k 100) (float_of_int 100))
                  = (if k = 29 \<or> k = 57 \<or> k = 58 then k - 1 else k)) [90..99]"
  by code_simp

lemma whole_percent:
  assumes "0 \<le> k" and "k \<le> 99"
  shows "int_of_float (float_mul (int_truediv k 100) (float_of_int 100))
           = (if k = 29 \<or> k = 57 \<or> k = 58 then k - 1 else k)"
proof -
  from assms have "k \<in> set [0..9] \<or> k \<in> set [10..19] \<or> k \<in> set [20..29]
      \<or> k \<in> set [30..39] \<or> k \<in> set [40..49] \<or> k \<in> set [50..59]
      \<or> k \<in> set [60..69] \<or> k \<in> set [70..79] \<or> k \<in> set [80..89]
      \<or> k \<in> set [90..99]"
    unfolding set_upto atLeastAtMost_iff by arith
  then show ?thesis
    using whole_percent_0 whole_percent_1 whole_percent_2 whole_percent_3 whole_percent_4
      whole_percent_5 whole_percent_6 whole_percent_7 whole_percent_8 whole_percent_9
    unfolding list_all_iff by blast
qed

lemma progress_exact:
  assumes "0 \<le> v" and "v < r" and "r \<le> 2 ^ 40"
  shows "int_of_float (float_mul (int_truediv v r) (float_of_int 100))
           = (if r dvd 100 * v
                 \<and> ((100 * v) div r = 29 \<or> (100 * v) div r = 57 \<or> (100 * v) div r = 58)
              then (100 * v) div r - 1 else (100 * v) div r)"
proof (cases "r dvd 100 * v")
  case False
  with progress_float(3)[OF assms] show ?thesis by simp
next
  case True
  define k where "k = (100 * v) div r"
  have rp: "0 < r" using assms by simp
  from True have kr: "k * r = 100 * v" unfolding k_def by simp
  have k0: "0 \<le> k" unfolding k_def using assms(1) rp by (simp add: pos_imp_zdiv_nonneg_iff)
  have "k * r < 100 * r" unfolding kr using assms(2) by simp
  then have "k < 100" using rp by (simp only: mult_less_cancel_right_pos)
  then have k1: "k \<le> 99" by simp
  have "round_double v r 0 = round_double k 100 0"
    using rp kr by (intro round_double_ratio) simp_all
  then have "int_truediv v r = int_truediv k 100" using rp by (simp add: int_truediv_def)
  with whole_percent[OF k0 k1] True show ?thesis unfolding k_def by simp
qed

text \<open>The expression changes sign with its numerator.\<close>

lemma progress_expr_neg:
  assumes "0 < r"
  shows "int_of_float (float_mul (int_truediv (- w) r) (float_of_int 100))
           = - int_of_float (float_mul (int_truediv w r) (float_of_int 100))"
proof -
  define a where "a = round_double w r 0"
  have 1: "int_truediv w r = a" "int_truediv (- w) r = (- fst a, snd a)"
    unfolding a_def int_truediv_def using assms round_double_neg[of w r 0] by simp_all
  have "float_mul (- fst a, snd a) (float_of_int 100)
          = (- fst (float_mul a (float_of_int 100)), snd (float_mul a (float_of_int 100)))"
    unfolding float_mul_def float_of_int_100
    using round_double_neg[of "fst a * 7036874417766400" 1 "snd a + - 46"] by simp
  then show ?thesis unfolding 1
    using int_of_float_neg[of "fst (float_mul a (float_of_int 100))"
        "snd (float_mul a (float_of_int 100))"]
    by simp
qed

lemma progress_expr_nonneg:
  assumes "0 \<le> w" and "0 < r"
  shows "0 \<le> int_of_float (float_mul (int_truediv w r) (float_of_int 100))"
proof -
  have a: "0 \<le> fst (int_truediv w r)"
    unfolding int_truediv_def using assms by (intro round_double_nonneg) simp_all
  have "0 \<le> fst (float_mul (int_truediv w r) (float_of_int 100))"
    unfolding float_mul_def float_of_int_100 using a by (intro round_double_nonneg) simp_all
  then show ?thesis
    using int_of_float_floor double_val_nonneg by (metis zero_le_floor)
qed

subsection \<open>At most one open session\<close>

lemma find_None_filter: "find P xs = None \<longleftrightarrow> filter P xs = []"
  by (induction xs) auto

lemma start_unchanged_or_appended:
  "snd (start_study_session flt now uid skill db) = db
   \<or> (open_sessions db uid skill = []
      \<and> (\<exists>row. snd (start_study_session flt now uid skill db)
              = db\<lparr>study_sessions := study_sessions db @ [row], session_seq := session_id row\<rparr>
            \<and> user_id row = uid \<and> skill_id row = skill \<and> end_time row = None))"
proof (cases "snd (start_study_session flt now uid skill db) = db")
  case True
  then show ?thesis by simp
next
  case False
  let ?row = "\<lparr>session_id = session_seq db + 1, user_id = uid, skill_id = skill,
               start_time = now, end_time = None, duration_minutes = None\<rparr>"
  from False have "open_sessions db uid skill = []"
    and "snd (start_study_session flt now uid skill db)
           = db\<lparr>study_sessions := study_sessions db @ [?row], session_seq := session_id ?row\<rparr>"
    by (auto simp: start_study_session_def open_sessions_def find_None_filter Let_def
             split: option.splits if_splits)
  then show ?thesis by (intro disjI2 conjI exI[of _ ?row]) simp_all
qed

lemma open_sessions_append:
  "open_sessions (db\<lparr>study_sessions := study_sessions db @ [row], session_seq := n\<rparr>) u k
     = open_sessions db u k
       @ (if user_id row = u \<and> skill_id row = k \<and> end_time row = None then [row] else [])"
  by (simp add: open_sessions_def)

lemma start_keeps_one_open:
  assumes "length (open_sessions db u k) \<le> 1"
  shows "length (open_sessions (snd (start_study_session flt now uid skill db)) u k) \<le> 1"
  using start_unchanged_or_appended[of flt now uid skill db] assms
  by (auto simp: open_sessions_append)

lemma filter_close_session_length:
  "length (filter (\<lambda>r. user_id r = u \<and> skill_id r = k \<and> end_time r = None)
             (close_session sid now d rows))
   \<le> length (filter (\<lambda>r. user_id r = u \<and> skill_id r = k \<and> end_time r = None) rows)"
  by (induction rows) (auto simp: close_session_def)

lemma end_sessions_cases:
  "study_sessions (snd (end_study_session flt now sid db)) = study_sessions db
   \<or> (\<exists>d. study_sessions (snd (end_study_session flt now sid db))
            = close_session sid now d (study_sessions db))"
  by (auto simp: end_study_session_def Let_def split: option.splits)

lemma end_keeps_one_open:
  assumes "length (open_sessions db u k) \<le> 1"
  shows "length (open_sessions (snd (end_study_session flt now sid db)) u k) \<le> 1"
proof -
  from end_sessions_cases[of flt now sid db] show ?thesis
  proof
    assume "study_sessions (snd (end_study_session flt now sid db)) = study_sessions db"
    with assms show ?thesis by (simp add: open_sessions_def)
  next
    assume "\<exists>d. study_sessions (snd (end_study_session flt now sid db))
            = close_session sid now d (study_sessions db)"
    then obtain d where "study_sessions (snd (end_study_session flt now sid db))
            = close_session sid now d (study_sessions db)" ..
    with assms filter_close_session_length[of u k sid now d "study_sessions db"]
    show ?thesis by (simp add: open_sessions_def)
  qed
qed

lemma apply_op_keeps_one_open:
  "length (open_sessions db u k) \<le> 1 \<Longrightarrow> length (open_sessions (apply_op x db) u k) \<le> 1"
  by (cases x) (simp_all only: apply_op.simps start_keeps_one_open end_keeps_one_open)

lemma run_ops_keeps_one_open:
  "length (open_sessions db u k) \<le> 1 \<Longrightarrow> length (open_sessions (run_ops xs db) u k) \<le> 1"
  by (induction xs arbitrary: db) (simp_all only: run_ops.simps apply_op_keeps_one_open)

lemma start_rejected:
  assumes "open_sessions db uid skill \<noteq> []"
  shows "snd (start_study_session flt now uid skill db) = db"
    and "isl (fst (start_study_session flt now uid skill db))"
    and "\<not> raises flt 0 \<Longrightarrow> fst (start_study_session flt now uid skill db)
            = Inl ''You already have an ongoing study session for this skill.''"
  using assms
  by (auto simp: start_study_session_def open_sessions_def find_None_filter split: option.splits)

lemma start_accepted:
  assumes "open_sessions db uid skill = []" and "flt = None"
  shows "start_study_session flt now uid skill db
          = (Inr (session_seq db + 1),
             db\<lparr>study_sessions := study_sessions db
                   @ [\<lparr>session_id = session_seq db + 1, user_id = uid, skill_id = skill,
                       start_time = now, end_time = None, duration_minutes = None\<rparr>],
                session_seq := session_seq db + 1\<rparr>)"
  using assms
  by (auto simp: start_study_session_def open_sessions_def find_None_filter raises_def Let_def
           split: option.splits)

text \<open>
  C1. For every user and skill and every sequence of calls of \<open>start_study_session\<close>
  and \<open>end_study_session\<close>, whatever the clock reads and whichever database call
  fails, at most one session of that user on that skill is open, on tables that
  start empty and on any tables that have at most one such session. A start
  while such a session is open leaves the database as it is and fails, with the
  message of an ongoing session unless the lookup itself raised; a start while
  none is open, in a run where the database raises nothing, appends exactly one
  row, which is open, and the user then has exactly that open session.
\<close>

theorem at_most_one_open_session:
  "length (open_sessions (run_ops ops initialize_db) u k) \<le> 1
   \<and> (length (open_sessions db u k) \<le> 1 \<longrightarrow> length (open_sessions (run_ops ops db) u k) \<le> 1)
   \<and> (open_sessions db u k \<noteq> [] \<longrightarrow>
        snd (start_study_session flt now u k db) = db
        \<and> isl (fst (start_study_session flt now u k db))
        \<and> (\<not> raises flt 0 \<longrightarrow>
             fst (start_study_session flt now u k db)
               = Inl ''You already have an ongoing study session for this skill.''))
   \<and> (open_sessions db u k = [] \<longrightarrow>
        (\<exists>row. start_study_session None now u k db
                 = (Inr (session_id row), db\<lparr>study_sessions := study_sessions db @ [row],
                                             session_seq := session_id row\<rparr>)
              \<and> user_id row = u \<and> skill_id row = k \<and> start_time row = now
              \<and> end_time row = None
              \<and> open_sessions (snd (start_study_session None now u k db)) u k = [row]))"
proof (intro conjI impI)
  show "length (open_sessions (run_ops ops initialize_db) u k) \<le> 1"
    by (rule run_ops_keeps_one_open) (simp add: open_sessions_def initialize_db_def)
next
  assume "length (open_sessions db u k) \<le> 1"
  then show "length (open_sessions (run_ops ops db) u k) \<le> 1"
    by (rule run_ops_keeps_one_open)
next
  assume "open_sessions db u k \<noteq> []"
  then show "snd (start_study_session flt now u k db) = db" by (rule start_rejected)
next
  assume "open_sessions db u k \<noteq> []"
  then show "isl (fst (start_study_session flt now u k db))" by (rule start_rejected)
next
  assume "open_sessions db u k \<noteq> []" and "\<not> raises flt 0"
  then show "fst (start_study_session flt now u k db)
               = Inl ''You already have an ongoing study session for this skill.''"
    by (rule start_rejected)
next
  assume e: "open_sessions db u k = []"
  let ?row = "\<lparr>session_id = session_seq db + 1, user_id = u, skill_id = k,
                       start_time = now, end_time = None, duration_minutes = None\<rparr>"
  have "start_study_session None now u k db
                 = (Inr (session_id ?row), db\<lparr>study_sessions := study_sessions db @ [?row],
                                             session_seq := session_id ?row\<rparr>)"
    using start_accepted[OF e refl, of now] by simp
  moreover from this e have "open_sessions (snd (start_study_session None now u k db)) u k = [?row]"
    by (simp add: open_sessions_append)
  ultimately show "\<exists>row. start_study_session None now u k db
                 = (Inr (session_id row), db\<lparr>study_sessions := study_sessions db @ [row],
                                             session_seq := session_id row\<rparr>)
              \<and> user_id row = u \<and> skill_id row = k \<and> start_time row = now
              \<and> end_time row = None
              \<and> open_sessions (snd (start_study_session None now u k db)) u k = [row]"
    by (intro exI[of _ ?row]) simp
qed

theorem at_most_one_open_session_witness:
  "length (open_sessions example_open_db 1 ''python'') \<le> 1
   \<and> length (open_sessions
        (run_ops [Start None 2000 1 ''python'', End None 2100 1, Start None 2200 1 ''python'',
                  Start None 2300 1 ''python''] example_open_db) 1 ''python'') \<le> 1
   \<and> open_sessions example_open_db 1 ''python'' \<noteq> []
   \<and> \<not> raises None 0
   \<and> start_study_session None 2000 1 ''python'' example_open_db
       = (Inl ''You already have an ongoing study session for this skill.'', example_open_db)
   \<and> open_sessions initialize_db 1 ''python'' = []
   \<and> length (open_sessions (snd (start_study_session None 1000 1 ''python'' initialize_db))
         1 ''python'') = 1"
proof -
  let ?ops = "[Start None 2000 1 ''python'', End None 2100 1, Start None 2200 1 ''python'',
                  Start None 2300 1 ''python'']"
  have a: "open_sessions example_open_db 1 ''python''
             = [\<lparr>session_id = 1, user_id = 1, skill_id = ''python'', start_time = 1000,
                 end_time = None, duration_minutes = None\<rparr>]"
    by (simp add: open_sessions_def example_open_db_def)
  then have a1: "length (open_sessions example_open_db 1 ''python'') \<le> 1"
    and a2: "open_sessions example_open_db 1 ''python'' \<noteq> []"
    by simp_all
  have r: "\<not> raises None 0" by (simp add: raises_def)
  have e: "open_sessions initialize_db 1 ''python'' = []"
    by (simp add: open_sessions_def initialize_db_def)
  note t1 = at_most_one_open_session[of ?ops 1 "''python''" example_open_db None 2000]
  note t2 = at_most_one_open_session[of "[]" 1 "''python''" initialize_db None 1000]
  from t1 a1 have b: "length (open_sessions (run_ops ?ops example_open_db) 1 ''python'') \<le> 1"
    by blast
  from t1 a2 r have c1: "snd (start_study_session None 2000 1 ''python'' example_open_db)
                           = example_open_db"
    and c2: "fst (start_study_session None 2000 1 ''python'' example_open_db)
               = Inl ''You already have an ongoing study session for this skill.''"
    by blast+
  from c1 c2 have c: "start_study_session None 2000 1 ''python'' example_open_db
       = (Inl ''You already have an ongoing study session for this skill.'', example_open_db)"
    by (metis prod.collapse)
  from t2 e obtain row where
    "open_sessions (snd (start_study_session None 1000 1 ''python'' initialize_db)) 1 ''python''
       = [row]"
    by blast
  then have d: "length (open_sessions (snd (start_study_session None 1000 1 ''python''
                   initialize_db)) 1 ''python'') = 1"
    by simp
  from a1 b a2 r c e d show ?thesis by blast
qed

subsection \<open>Ending a session\<close>

lemma close_session_closed:
  "\<forall>r\<in>set (close_session sid now d rows).
      session_id r = sid \<longrightarrow> end_time r = Some now \<and> duration_minutes r = Some d"
proof (intro ballI impI)
  fix r
  assume "r \<in> set (close_session sid now d rows)" and s: "session_id r = sid"
  then have "r \<in> (\<lambda>r. if session_id r = sid
              then r\<lparr>end_time := Some now, duration_minutes := Some d\<rparr>
              else r) ` set rows"
    unfolding close_session_def set_map by simp
  then obtain r0 where r: "r = (if session_id r0 = sid
              then r0\<lparr>end_time := Some now, duration_minutes := Some d\<rparr> else r0)"
    by (rule imageE)
  show "end_time r = Some now \<and> duration_minutes r = Some d"
  proof (cases "session_id r0 = sid")
    case True
    with r show ?thesis by simp
  next
    case False
    with r s show ?thesis by simp
  qed
qed

lemma close_session_ids: "map session_id (close_session sid now d rows) = map session_id rows"
  by (simp add: close_session_def)

lemma update_badge_written:
  "\<forall>b\<in>set (update_badge uid t badge now rows).
      badge_user_id b = uid \<longrightarrow> total_study_minutes b = t \<and> current_badge b = badge"
proof (intro ballI impI)
  fix b
  assume "b \<in> set (update_badge uid t badge now rows)" and s: "badge_user_id b = uid"
  then have "b \<in> (\<lambda>b. if badge_user_id b = uid
              then b\<lparr>total_study_minutes := t, current_badge := badge,
                     badge_updated_at := Some now\<rparr>
              else b) ` set rows"
    unfolding update_badge_def set_map by simp
  then obtain b0 where b: "b = (if badge_user_id b0 = uid
              then b0\<lparr>total_study_minutes := t, current_badge := badge,
                     badge_updated_at := Some now\<rparr> else b0)"
    by (rule imageE)
  show "total_study_minutes b = t \<and> current_badge b = badge"
  proof (cases "badge_user_id b0 = uid")
    case True
    with b show ?thesis by simp
  next
    case False
    with b s show ?thesis by simp
  qed
qed
lemma update_badge_ids:
  "map badge_user_id (update_badge uid t badge now rows) = map badge_user_id rows"
  by (simp add: update_badge_def)

lemma end_study_session_found:
  assumes "find (\<lambda>r. session_id r = sid \<and> end_time r = None) (study_sessions db) = Some s"
  shows "end_study_session flt now sid db =
     (let d = minutes_between (now - start_time s);
          rows = close_session sid now d (study_sessions db)
      in if raises flt 0 \<or> raises flt 1 \<or> raises flt 2
         then (Inl (''Error ending study session: '' @ exception_text flt), db)
         else case find (\<lambda>b. badge_user_id b = user_id s) (user_badges db) of
                Some b \<Rightarrow>
                  if raises flt 3 \<or> raises flt 4
                  then (Inl (''Error ending study session: '' @ exception_text flt), db)
                  else (Inr d,
                        db\<lparr>study_sessions := rows,
                           user_badges :=
                             update_badge (user_id s) (total_study_minutes b + d)
                               (get_badge_for_minutes (total_study_minutes b + d)) now
                               (user_badges db)\<rparr>)
              | None \<Rightarrow>
                  if raises flt 3
                  then (Inl (''Error ending study session: '' @ exception_text flt), db)
                  else (Inr d, db\<lparr>study_sessions := rows\<rparr>))"
  unfolding end_study_session_def Let_def assms option.case
  by (cases "find (\<lambda>b. badge_user_id b = user_id s) (user_badges db)") simp_all

lemma end_study_session_not_found:
  assumes "find (\<lambda>r. session_id r = sid \<and> end_time r = None) (study_sessions db) = None"
  shows "isl (fst (end_study_session flt now sid db))"
    and "snd (end_study_session flt now sid db) = db"
  unfolding end_study_session_def assms option.case by simp_all

lemma end_study_session_outcomes:
  "(isl (fst (end_study_session flt now sid db)) \<and> snd (end_study_session flt now sid db) = db)
   \<or> (\<exists>s. find (\<lambda>r. session_id r = sid \<and> end_time r = None) (study_sessions db) = Some s
        \<and> fst (end_study_session flt now sid db) = Inr (minutes_between (now - start_time s))
        \<and> study_sessions (snd (end_study_session flt now sid db))
            = close_session sid now (minutes_between (now - start_time s)) (study_sessions db)
        \<and> user_badges (snd (end_study_session flt now sid db))
            = (case find (\<lambda>b. badge_user_id b = user_id s) (user_badges db) of
                 None \<Rightarrow> user_badges db
               | Some b \<Rightarrow>
                   update_badge (user_id s)
                     (total_study_minutes b + minutes_between (now - start_time s))
                     (get_badge_for_minutes
                        (total_study_minutes b + minutes_between (now - start_time s)))
                     now (user_badges db)))"
proof (cases "find (\<lambda>r. session_id r = sid \<and> end_time r = None) (study_sessions db)")
  case None
  then show ?thesis using end_study_session_not_found[OF None] by simp
next
  case (Some s)
  note found = end_study_session_found[OF Some, of flt now, unfolded Let_def]
  show ?thesis
  proof (cases "raises flt 0 \<or> raises flt 1 \<or> raises flt 2")
    case True
    then have "end_study_session flt now sid db
                 = (Inl (''Error ending study session: '' @ exception_text flt), db)"
      unfolding found by simp
    then show ?thesis by simp
  next
    case early: False
    show ?thesis
    proof (cases "find (\<lambda>b. badge_user_id b = user_id s) (user_badges db)")
      case None
      show ?thesis
      proof (cases "raises flt 3")
        case True
        with early None have "end_study_session flt now sid db
                 = (Inl (''Error ending study session: '' @ exception_text flt), db)"
          unfolding found by simp
        then show ?thesis by simp
      next
        case False
        with early None have "end_study_session flt now sid db
                 = (Inr (minutes_between (now - start_time s)),
                    db\<lparr>study_sessions := close_session sid now
                          (minutes_between (now - start_time s)) (study_sessions db)\<rparr>)"
          unfolding found by simp
        with Some None show ?thesis by simp
      qed
    next
      case (Some b)
      show ?thesis
      proof (cases "raises flt 3 \<or> raises flt 4")
        case True
        with early Some have "end_study_session flt now sid db
                 = (Inl (''Error ending study session: '' @ exception_text flt), db)"
          unfolding found by simp
        then show ?thesis by simp
      next
        case False
        with early Some have "end_study_session flt now sid db
                 = (Inr (minutes_between (now - start_time s)),
                    db\<lparr>study_sessions := close_session sid now
                          (minutes_between (now - start_time s)) (study_sessions db),
                       user_badges := update_badge (user_id s)
                         (total_study_minutes b + minutes_between (now - start_time s))
                         (get_badge_for_minutes
                            (total_study_minutes b + minutes_between (now - start_time s)))
                         now (user_badges db)\<rparr>)"
          unfolding found by simp
        with \<open>find (\<lambda>r. session_id r = sid \<and> end_time r = None) (study_sessions db) = Some s\<close>
          Some show ?thesis by simp
      qed
    qed
  qed
qed

text \<open>
  C8. When no open session has the given id, \<open>end_study_session\<close> leaves the
  whole database as it is and fails; the failure is the message that no active
  session was found, unless the lookup itself raised a database exception.
\<close>

theorem end_without_open_session:
  assumes "\<forall>r\<in>set (study_sessions db). session_id r = sid \<longrightarrow> end_time r \<noteq> None"
  shows "snd (end_study_session flt now sid db) = db
         \<and> isl (fst (end_study_session flt now sid db))
         \<and> (\<not> raises flt 0 \<longrightarrow>
              fst (end_study_session flt now sid db) = Inl ''No active study session found.'')"
proof -
  from assms have "find (\<lambda>r. session_id r = sid \<and> end_time r = None) (study_sessions db) = None"
    by (auto simp: find_None_iff)
  then show ?thesis by (simp add: end_study_session_def)
qed

theorem end_without_open_session_witness:
  "map session_id (study_sessions example_open_db) = [1]
   \<and> \<not> raises None 0
   \<and> end_study_session None 2000 2 example_open_db
       = (Inl ''No active study session found.'', example_open_db)"
proof -
  have h: "\<forall>r\<in>set (study_sessions example_open_db). session_id r = 2 \<longrightarrow> end_time r \<noteq> None"
    by (simp add: example_open_db_def)
  have r: "\<not> raises None 0" by (simp add: raises_def)
  have i: "map session_id (study_sessions example_open_db) = [1]"
    by (simp add: example_open_db_def)
  from end_without_open_session[OF h, of None 2000] r
  have "end_study_session None 2000 2 example_open_db
       = (Inl ''No active study session found.'', example_open_db)"
    by (metis prod.collapse)
  with i r show ?thesis by blast
qed

text \<open>
  The claim C5 as stated fails for a user without a badge row: the session is
  closed, with its duration, and no badge row holds the new total.
\<close>

theorem session_closed_without_badge_update:
  "study_sessions (snd (end_study_session None 1120 1 example_no_badge_db))
     = [\<lparr>session_id = 1, user_id = 5, skill_id = ''python'', start_time = 1000,
         end_time = Some 1120, duration_minutes = Some 2\<rparr>]
   \<and> user_badges (snd (end_study_session None 1120 1 example_no_badge_db)) = []
   \<and> fst (end_study_session None 1120 1 example_no_badge_db) = Inr 2"
  by code_simp

text \<open>
  C5, amended. After any call of \<open>end_study_session\<close>, whichever database call
  fails: either the call reports a failure and the database is as it was, or it
  reports the duration, every row with that session id is closed with that end
  time and duration, no row is added or removed, and the badge row of the owning
  user, when there is one, holds the old total plus the duration and the badge
  looked up for that sum. When the user has no badge row the badge table is
  left as it is.
\<close>

theorem end_session_all_or_nothing:
  assumes "end_study_session flt now sid db = (res, db')"
  shows "(isl res \<and> db' = db)
   \<or> (\<exists>s. find (\<lambda>r. session_id r = sid \<and> end_time r = None) (study_sessions db) = Some s
        \<and> res = Inr (minutes_between (now - start_time s))
        \<and> map session_id (study_sessions db') = map session_id (study_sessions db)
        \<and> (\<forall>r\<in>set (study_sessions db').
              session_id r = sid \<longrightarrow>
                end_time r = Some now
                \<and> duration_minutes r = Some (minutes_between (now - start_time s)))
        \<and> map badge_user_id (user_badges db') = map badge_user_id (user_badges db)
        \<and> (\<forall>b. find (\<lambda>b. badge_user_id b = user_id s) (user_badges db) = Some b \<longrightarrow>
              (\<forall>b'\<in>set (user_badges db').
                  badge_user_id b' = user_id s \<longrightarrow>
                    total_study_minutes b'
                      = total_study_minutes b + minutes_between (now - start_time s)
                    \<and> current_badge b'
                      = get_badge_for_minutes
                          (total_study_minutes b + minutes_between (now - start_time s))))
        \<and> (find (\<lambda>b. badge_user_id b = user_id s) (user_badges db) = None \<longrightarrow>
              user_badges db' = user_badges db))"
proof -
  from end_study_session_outcomes[of flt now sid db] assms
  consider "isl res \<and> db' = db"
    | s where "find (\<lambda>r. session_id r = sid \<and> end_time r = None) (study_sessions db) = Some s"
        and "res = Inr (minutes_between (now - start_time s))"
        and "study_sessions db'
               = close_session sid now (minutes_between (now - start_time s)) (study_sessions db)"
        and "user_badges db'
            = (case find (\<lambda>b. badge_user_id b = user_id s) (user_badges db) of
                 None \<Rightarrow> user_badges db
               | Some b \<Rightarrow>
                   update_badge (user_id s)
                     (total_study_minutes b + minutes_between (now - start_time s))
                     (get_badge_for_minutes
                        (total_study_minutes b + minutes_between (now - start_time s)))
                     now (user_badges db))"
    by auto
  then show ?thesis
  proof cases
    case 1
    then show ?thesis by simp
  next
    case (2 s)
    show ?thesis
    proof (intro disjI2 exI[of _ s] conjI allI impI)
      show "find (\<lambda>r. session_id r = sid \<and> end_time r = None) (study_sessions db) = Some s"
        by (rule 2)
      show "res = Inr (minutes_between (now - start_time s))" by (rule 2)
      show "map session_id (study_sessions db') = map session_id (study_sessions db)"
        using 2(3) by (simp add: close_session_ids)
      show "\<forall>r\<in>set (study_sessions db').
              session_id r = sid \<longrightarrow>
                end_time r = Some now
                \<and> duration_minutes r = Some (minutes_between (now - start_time s))"
        unfolding 2(3) by (rule close_session_closed)
      show "map badge_user_id (user_badges db') = map badge_user_id (user_badges db)"
        using 2(4) by (simp add: update_badge_ids split: option.splits)
    next
      fix b
      assume "find (\<lambda>b. badge_user_id b = user_id s) (user_badges db) = Some b"
      with 2(4) have ub: "user_badges db' = update_badge (user_id s)
                     (total_study_minutes b + minutes_between (now - start_time s))
                     (get_badge_for_minutes
                        (total_study_minutes b + minutes_between (now - start_time s)))
                     now (user_badges db)" by simp
      show "\<forall>b'\<in>set (user_badges db').
                  badge_user_id b' = user_id s \<longrightarrow>
                    total_study_minutes b'
                      = total_study_minutes b + minutes_between (now - start_time s)
                    \<and> current_badge b'
                      = get_badge_for_minutes
                          (total_study_minutes b + minutes_between (now - start_time s))"
        unfolding ub by (rule update_badge_written)
    next
      assume "find (\<lambda>b. badge_user_id b = user_id s) (user_badges db) = None"
      with 2(4) show "user_badges db' = user_badges db" by simp
    qed
  qed
qed

theorem end_session_all_or_nothing_witness:
  "end_study_session None 1120 1 example_open_db
     = (Inr 2,
        example_open_db
          \<lparr>study_sessions :=
             [\<lparr>session_id = 1, user_id = 1, skill_id = ''python'', start_time = 1000,
               end_time = Some 1120, duration_minutes = Some 2\<rparr>],
           user_badges :=
             [\<lparr>badge_user_id = 1, total_study_minutes = 12, current_badge = ''Member'',
               badge_updated_at = Some 1120\<rparr>]\<rparr>)
   \<and> find (\<lambda>r. session_id r = 1 \<and> end_time r = None) (study_sessions example_open_db)
       = Some \<lparr>session_id = 1, user_id = 1, skill_id = ''python'', start_time = 1000,
               end_time = None, duration_minutes = None\<rparr>
   \<and> (Inr 2 :: string + int) = Inr (minutes_between (1120 - 1000))"
proof -
  let ?s = "\<lparr>session_id = 1, user_id = 1, skill_id = ''python'', start_time = 1000,
               end_time = None, duration_minutes = None\<rparr>"
  let ?db' = "example_open_db
          \<lparr>study_sessions :=
             [\<lparr>session_id = 1, user_id = 1, skill_id = ''python'', start_time = 1000,
               end_time = Some 1120, duration_minutes = Some 2\<rparr>],
           user_badges :=
             [\<lparr>badge_user_id = 1, total_study_minutes = 12, current_badge = ''Member'',
               badge_updated_at = Some 1120\<rparr>]\<rparr>"
  have run: "end_study_session None 1120 1 example_open_db = (Inr 2, ?db')"
    by code_simp
  have f: "find (\<lambda>r. session_id r = 1 \<and> end_time r = None) (study_sessions example_open_db)
       = Some ?s"
    by (simp add: example_open_db_def)
  have "\<not> isl (Inr 2 :: string + int)" by simp
  with end_session_all_or_nothing[OF run]
  obtain s where "find (\<lambda>r. session_id r = 1 \<and> end_time r = None)
                    (study_sessions example_open_db) = Some s"
    and "(Inr 2 :: string + int) = Inr (minutes_between (1120 - start_time s))"
    by blast
  with f have "(Inr 2 :: string + int) = Inr (minutes_between (1120 - 1000))"
    by simp
  with run f show ?thesis by blast
qed

text \<open>
  The claim C6 as stated fails: for a user without a badge row the call succeeds
  and returns the duration.
\<close>

theorem missing_badge_record_not_reported:
  "user_badges example_no_badge_db = []
   \<and> end_study_session None 1090 1 example_no_badge_db
       = (Inr 1,
          example_no_badge_db
            \<lparr>study_sessions :=
               [\<lparr>session_id = 1, user_id = 5, skill_id = ''python'', start_time = 1000,
                 end_time = Some 1090, duration_minutes = Some 1\<rparr>]\<rparr>)"
  by code_simp

text \<open>
  C6, amended. When the owner of the open session has no badge row,
  \<open>end_study_session\<close> never writes to the badge table, and in a run where no
  database call raises it closes the session and returns the duration: the
  missing row is skipped without any report.
\<close>

theorem missing_badge_record_skipped:
  assumes "find (\<lambda>r. session_id r = sid \<and> end_time r = None) (study_sessions db) = Some s"
    and "\<forall>b\<in>set (user_badges db). badge_user_id b \<noteq> user_id s"
  shows "user_badges (snd (end_study_session flt now sid db)) = user_badges db
         \<and> (\<not> raises flt 0 \<and> \<not> raises flt 1 \<and> \<not> raises flt 2 \<and> \<not> raises flt 3 \<longrightarrow>
              end_study_session flt now sid db
                = (Inr (minutes_between (now - start_time s)),
                   db\<lparr>study_sessions :=
                        close_session sid now (minutes_between (now - start_time s))
                          (study_sessions db)\<rparr>))"
proof -
  from assms(2) have nb: "find (\<lambda>b. badge_user_id b = user_id s) (user_badges db) = None"
    by (simp add: find_None_iff)
  note found = end_study_session_found[OF assms(1), of flt now, unfolded Let_def nb option.case]
  show ?thesis
  proof (cases "raises flt 0 \<or> raises flt 1 \<or> raises flt 2 \<or> raises flt 3")
    case True
    then have "end_study_session flt now sid db
                 = (Inl (''Error ending study session: '' @ exception_text flt), db)"
      unfolding found by auto
    with True show ?thesis by simp
  next
    case False
    then have "end_study_session flt now sid db
                = (Inr (minutes_between (now - start_time s)),
                   db\<lparr>study_sessions :=
                        close_session sid now (minutes_between (now - start_time s))
                          (study_sessions db)\<rparr>)"
      unfolding found by simp
    then show ?thesis by simp
  qed
qed

theorem missing_badge_record_skipped_witness:
  "find (\<lambda>r. session_id r = 1 \<and> end_time r = None) (study_sessions example_no_badge_db)
     = Some \<lparr>session_id = 1, user_id = 5, skill_id = ''python'', start_time = 1000,
             end_time = None, duration_minutes = None\<rparr>
   \<and> user_badges example_no_badge_db = []
   \<and> \<not> raises None 0 \<and> \<not> raises None 1 \<and> \<not> raises None 2 \<and> \<not> raises None 3
   \<and> user_badges (snd (end_study_session None 1090 1 example_no_badge_db)) = []
   \<and> fst (end_study_session None 1090 1 example_no_badge_db) = Inr 1"
proof -
  have m: "minutes_between 90 = 1" by code_simp
  let ?s = "\<lparr>session_id = 1, user_id = 5, skill_id = ''python'', start_time = 1000,
             end_time = None, duration_minutes = None\<rparr>"
  have f: "find (\<lambda>r. session_id r = 1 \<and> end_time r = None) (study_sessions example_no_badge_db)
     = Some ?s"
    by (simp add: example_no_badge_db_def)
  have nb: "\<forall>b\<in>set (user_badges example_no_badge_db). badge_user_id b \<noteq> user_id ?s"
    by (simp add: example_no_badge_db_def)
  have r: "\<not> raises None 0 \<and> \<not> raises None 1 \<and> \<not> raises None 2 \<and> \<not> raises None 3"
    by (simp add: raises_def)
  have e: "user_badges example_no_badge_db = []" by (simp add: example_no_badge_db_def)
  from missing_badge_record_skipped[OF f nb, of None 1090] r e
  have "user_badges (snd (end_study_session None 1090 1 example_no_badge_db)) = []"
    and "fst (end_study_session None 1090 1 example_no_badge_db) = Inr 1"
    by (simp_all add: m)
  with f r e show ?thesis by simp
qed

lemma close_session_member:
  assumes "s \<in> set rows" and "session_id s = sid"
  shows "s\<lparr>end_time := Some now, duration_minutes := Some d\<rparr> \<in> set (close_session sid now d rows)"
proof -
  let ?f = "\<lambda>r. if session_id r = sid
              then r\<lparr>end_time := Some now, duration_minutes := Some d\<rparr> else r"
  from assms(1) have "?f s \<in> ?f ` set rows" by (rule imageI)
  moreover have "?f s = s\<lparr>end_time := Some now, duration_minutes := Some d\<rparr>"
    using assms(2) by simp
  ultimately show ?thesis unfolding close_session_def set_map by simp
qed

lemma find_Some_member: "find P xs = Some x \<Longrightarrow> x \<in> set xs \<and> P x"
  by (induction xs) (auto split: if_splits)

lemma find_update_badge:
  "find (\<lambda>b. badge_user_id b = uid) (update_badge uid t badge now rows)
     = map_option (\<lambda>b. b\<lparr>total_study_minutes := t, current_badge := badge,
                          badge_updated_at := Some now\<rparr>)
         (find (\<lambda>b. badge_user_id b = uid) rows)"
  by (induction rows) (simp_all add: update_badge_def)

lemma close_session_nth:
  "i < length rows \<Longrightarrow>
     close_session sid now d rows ! i
       = (if session_id (rows ! i) = sid
          then (rows ! i)\<lparr>end_time := Some now, duration_minutes := Some d\<rparr>
          else rows ! i)"
  by (simp add: close_session_def)

lemma close_session_length: "length (close_session sid now d rows) = length rows"
  by (simp add: close_session_def)

lemma end_study_session_no_fault_state:
  assumes "find (\<lambda>r. session_id r = sid \<and> end_time r = None) (study_sessions db) = Some s"
  shows "end_study_session None now sid db
           = (Inr (minutes_between (now - start_time s)),
              case find (\<lambda>b. badge_user_id b = user_id s) (user_badges db) of
                None \<Rightarrow>
                  db\<lparr>study_sessions :=
                       close_session sid now (minutes_between (now - start_time s))
                         (study_sessions db)\<rparr>
              | Some b \<Rightarrow>
                  db\<lparr>study_sessions :=
                       close_session sid now (minutes_between (now - start_time s))
                         (study_sessions db),
                     user_badges :=
                       update_badge (user_id s)
                         (total_study_minutes b + minutes_between (now - start_time s))
                         (get_badge_for_minutes
                            (total_study_minutes b + minutes_between (now - start_time s)))
                         now (user_badges db)\<rparr>)"
  unfolding end_study_session_found[OF assms, unfolded Let_def]
  by (simp add: raises_def split: option.splits)

text \<open>
  C4. When the open session of the given id is ended at a clock reading that is
  not before its start (and less than \<open>2 ^ 52\<close> seconds after it, which holds
  for any two datetimes), in a run where the database raises nothing,
  \<open>end_study_session\<close> succeeds with the whole number of minutes elapsed, the
  elapsed seconds divided by 60 and rounded down, which is not negative. The
  table of sessions it leaves is the table it found with, in every row of that
  id and in no other row, the end time and this duration written: the session
  that was open is in it, closed, and no row is added or removed. 90 seconds
  give 1 minute and 0 seconds give 0 minutes.
\<close>

theorem end_sets_floor_minutes:
  assumes "find (\<lambda>r. session_id r = sid \<and> end_time r = None) (study_sessions db) = Some s"
    and "start_time s \<le> now" and "now - start_time s < 2 ^ 52"
  shows "end_study_session None now sid db
           = (Inr ((now - start_time s) div 60),
              case find (\<lambda>b. badge_user_id b = user_id s) (user_badges db) of
                None \<Rightarrow>
                  db\<lparr>study_sessions :=
                       close_session sid now ((now - start_time s) div 60) (study_sessions db)\<rparr>
              | Some b \<Rightarrow>
                  db\<lparr>study_sessions :=
                       close_session sid now ((now - start_time s) div 60) (study_sessions db),
                     user_badges :=
                       update_badge (user_id s)
                         (total_study_minutes b + (now - start_time s) div 60)
                         (get_badge_for_minutes
                            (total_study_minutes b + (now - start_time s) div 60))
                         now (user_badges db)\<rparr>)
         \<and> fst (end_study_session None now sid db) = Inr ((now - start_time s) div 60)
         \<and> s\<lparr>end_time := Some now, duration_minutes := Some ((now - start_time s) div 60)\<rparr>
               \<in> set (study_sessions (snd (end_study_session None now sid db)))
         \<and> length (study_sessions (snd (end_study_session None now sid db)))
               = length (study_sessions db)
         \<and> (\<forall>i < length (study_sessions db).
               study_sessions (snd (end_study_session None now sid db)) ! i
                 = (if session_id (study_sessions db ! i) = sid
                    then (study_sessions db ! i)
                           \<lparr>end_time := Some now,
                            duration_minutes := Some ((now - start_time s) div 60)\<rparr>
                    else study_sessions db ! i))
         \<and> (\<forall>r\<in>set (study_sessions (snd (end_study_session None now sid db))).
               session_id r = sid \<longrightarrow>
                 end_time r = Some now
                 \<and> duration_minutes r = Some ((now - start_time s) div 60))
         \<and> 0 \<le> (now - start_time s) div 60
         \<and> minutes_between 90 = 1
         \<and> minutes_between 0 = 0"
proof -
  define d where "d = (now - start_time s) div 60"
  from assms(2,3) have m: "minutes_between (now - start_time s) = d"
    unfolding d_def by (intro minutes_between_nonneg) simp_all
  note st = end_study_session_no_fault_state[OF assms(1), where now = now, unfolded m]
  have rows: "study_sessions (snd (end_study_session None now sid db))
                = close_session sid now d (study_sessions db)"
    unfolding st by (simp split: option.splits)
  from find_Some_member[OF assms(1)] have s: "s \<in> set (study_sessions db)" "session_id s = sid"
    by simp_all
  have 1: "fst (end_study_session None now sid db) = Inr d" unfolding st by simp
  have 2: "s\<lparr>end_time := Some now, duration_minutes := Some d\<rparr>
               \<in> set (study_sessions (snd (end_study_session None now sid db)))"
    unfolding rows using s by (rule close_session_member)
  have 3: "length (study_sessions (snd (end_study_session None now sid db)))
               = length (study_sessions db)"
    unfolding rows by (rule close_session_length)
  have 4: "\<forall>i < length (study_sessions db).
               study_sessions (snd (end_study_session None now sid db)) ! i
                 = (if session_id (study_sessions db ! i) = sid
                    then (study_sessions db ! i)\<lparr>end_time := Some now, duration_minutes := Some d\<rparr>
                    else study_sessions db ! i)"
    unfolding rows using close_session_nth by blast
  have 5: "\<forall>r\<in>set (study_sessions (snd (end_study_session None now sid db))).
               session_id r = sid \<longrightarrow> end_time r = Some now \<and> duration_minutes r = Some d"
    unfolding rows by (rule close_session_closed)
  have 6: "0 \<le> d" unfolding d_def using assms(2) by (simp add: pos_imp_zdiv_nonneg_iff)
  from st 1 2 3 4 5 6 minutes_between_90 minutes_between_0
  show ?thesis unfolding d_def by blast
qed

theorem end_sets_floor_minutes_witness:
  "find (\<lambda>r. session_id r = 1 \<and> end_time r = None) (study_sessions example_open_db)
     = Some \<lparr>session_id = 1, user_id = 1, skill_id = ''python'', start_time = 1000,
             end_time = None, duration_minutes = None\<rparr>
   \<and> (1000::int) \<le> 1090 \<and> (1090 - 1000 :: int) < 2 ^ 52
   \<and> fst (end_study_session None 1090 1 example_open_db) = Inr 1
   \<and> \<lparr>session_id = 1, user_id = 1, skill_id = ''python'', start_time = 1000,
        end_time = Some 1090, duration_minutes = Some 1\<rparr>
       \<in> set (study_sessions (snd (end_study_session None 1090 1 example_open_db)))
   \<and> length (study_sessions (snd (end_study_session None 1090 1 example_open_db))) = 1
   \<and> fst (end_study_session None 1000 1 example_open_db) = Inr 0"
proof -
  let ?s = "\<lparr>session_id = 1, user_id = 1, skill_id = ''python'', start_time = 1000,
             end_time = None, duration_minutes = None\<rparr>"
  have f: "find (\<lambda>r. session_id r = 1 \<and> end_time r = None) (study_sessions example_open_db)
     = Some ?s"
    by (simp add: example_open_db_def)
  have l: "length (study_sessions example_open_db) = 1" by (simp add: example_open_db_def)
  have a: "start_time ?s \<le> 1090" "1090 - start_time ?s < 2 ^ 52" by simp_all
  have b: "start_time ?s \<le> 1000" "1000 - start_time ?s < 2 ^ 52" by simp_all
  note t = end_sets_floor_minutes[OF f a]
  from t have 1: "fst (end_study_session None 1090 1 example_open_db) = Inr 1" by simp
  from t have "?s\<lparr>end_time := Some 1090, duration_minutes := Some ((1090 - start_time ?s) div 60)\<rparr>
       \<in> set (study_sessions (snd (end_study_session None 1090 1 example_open_db)))"
    by blast
  then have 2: "\<lparr>session_id = 1, user_id = 1, skill_id = ''python'', start_time = 1000,
        end_time = Some 1090, duration_minutes = Some 1\<rparr>
       \<in> set (study_sessions (snd (end_study_session None 1090 1 example_open_db)))"
    by simp
  from t have "length (study_sessions (snd (end_study_session None 1090 1 example_open_db)))
                 = length (study_sessions example_open_db)"
    by blast
  with l have 3: "length (study_sessions (snd (end_study_session None 1090 1 example_open_db))) = 1"
    by simp
  from end_sets_floor_minutes[OF f b]
  have 4: "fst (end_study_session None 1000 1 example_open_db) = Inr 0" by simp
  from f 1 2 3 4 show ?thesis by simp
qed

text \<open>
  The claim C7 as stated fails: with the clock 120 seconds before the start of
  the session the call succeeds with a duration of - 2, and the total of the
  user goes from 10 to 8.
\<close>

theorem negative_duration_added:
  "end_study_session None 880 1 example_open_db
     = (Inr (- 2),
        example_open_db
          \<lparr>study_sessions :=
             [\<lparr>session_id = 1, user_id = 1, skill_id = ''python'', start_time = 1000,
               end_time = Some 880, duration_minutes = Some (- 2)\<rparr>],
           user_badges :=
             [\<lparr>badge_user_id = 1, total_study_minutes = 8, current_badge = ''Member'',
               badge_updated_at = Some 880\<rparr>]\<rparr>)"
  by code_simp

text \<open>
  C7, amended. No duration is rejected. In a run where the database raises
  nothing, for a session of a user with a badge row, \<open>end_study_session\<close>
  succeeds with the elapsed seconds divided by 60 and cut towards zero, and the
  state it leaves is the one it found with the session closed and with the old
  total plus that number, whatever its sign, written to the badge row of the
  user, which is then the row found for the user; no badge row is added or
  removed. The number is negative exactly when the clock reads 60 seconds or
  more before the start of the session, and then the total written is below
  the old one.
\<close>

theorem every_duration_added:
  assumes "find (\<lambda>r. session_id r = sid \<and> end_time r = None) (study_sessions db) = Some s"
    and "find (\<lambda>b. badge_user_id b = user_id s) (user_badges db) = Some b"
    and "\<bar>now - start_time s\<bar> < 2 ^ 52"
  shows "end_study_session None now sid db
           = (Inr (sgn (now - start_time s) * (\<bar>now - start_time s\<bar> div 60)),
              db\<lparr>study_sessions :=
                   close_session sid now
                     (sgn (now - start_time s) * (\<bar>now - start_time s\<bar> div 60))
                     (study_sessions db),
                 user_badges :=
                   update_badge (user_id s)
                     (total_study_minutes b
                      + sgn (now - start_time s) * (\<bar>now - start_time s\<bar> div 60))
                     (get_badge_for_minutes
                        (total_study_minutes b
                         + sgn (now - start_time s) * (\<bar>now - start_time s\<bar> div 60)))
                     now (user_badges db)\<rparr>)
         \<and> fst (end_study_session None now sid db)
           = Inr (sgn (now - start_time s) * (\<bar>now - start_time s\<bar> div 60))
         \<and> find (\<lambda>b. badge_user_id b = user_id s)
               (user_badges (snd (end_study_session None now sid db)))
           = Some (b\<lparr>total_study_minutes :=
                        total_study_minutes b
                        + sgn (now - start_time s) * (\<bar>now - start_time s\<bar> div 60),
                      current_badge :=
                        get_badge_for_minutes
                          (total_study_minutes b
                           + sgn (now - start_time s) * (\<bar>now - start_time s\<bar> div 60)),
                      badge_updated_at := Some now\<rparr>)
         \<and> map badge_user_id (user_badges (snd (end_study_session None now sid db)))
           = map badge_user_id (user_badges db)
         \<and> (\<forall>b'\<in>set (user_badges (snd (end_study_session None now sid db))).
               badge_user_id b' = user_id s \<longrightarrow>
                 total_study_minutes b'
                   = total_study_minutes b
                     + sgn (now - start_time s) * (\<bar>now - start_time s\<bar> div 60))
         \<and> (sgn (now - start_time s) * (\<bar>now - start_time s\<bar> div 60) < 0
               \<longleftrightarrow> now - start_time s \<le> - 60)
         \<and> (now - start_time s \<le> - 60 \<longrightarrow>
               total_study_minutes b
                 + sgn (now - start_time s) * (\<bar>now - start_time s\<bar> div 60)
               < total_study_minutes b)"
proof -
  define d where "d = sgn (now - start_time s) * (\<bar>now - start_time s\<bar> div 60)"
  from assms(3) have m: "minutes_between (now - start_time s) = d"
    unfolding d_def by (rule minutes_between_truncates)
  note st = end_study_session_no_fault_state[OF assms(1), where now = now,
      unfolded m assms(2) option.case]
  have ub: "user_badges (snd (end_study_session None now sid db))
              = update_badge (user_id s) (total_study_minutes b + d)
                  (get_badge_for_minutes (total_study_minutes b + d)) now (user_badges db)"
    unfolding st by simp
  have 1: "fst (end_study_session None now sid db) = Inr d" unfolding st by simp
  have 2: "find (\<lambda>b. badge_user_id b = user_id s)
               (user_badges (snd (end_study_session None now sid db)))
           = Some (b\<lparr>total_study_minutes := total_study_minutes b + d,
                      current_badge := get_badge_for_minutes (total_study_minutes b + d),
                      badge_updated_at := Some now\<rparr>)"
    unfolding ub find_update_badge assms(2) by simp
  have 3: "map badge_user_id (user_badges (snd (end_study_session None now sid db)))
           = map badge_user_id (user_badges db)"
    unfolding ub by (rule update_badge_ids)
  have "\<forall>b'\<in>set (user_badges (snd (end_study_session None now sid db))).
               badge_user_id b' = user_id s \<longrightarrow>
                 total_study_minutes b' = total_study_minutes b + d
                 \<and> current_badge b' = get_badge_for_minutes (total_study_minutes b + d)"
    unfolding ub by (rule update_badge_written)
  then have 4: "\<forall>b'\<in>set (user_badges (snd (end_study_session None now sid db))).
               badge_user_id b' = user_id s \<longrightarrow>
                 total_study_minutes b' = total_study_minutes b + d"
    by blast
  have 5: "d < 0 \<longleftrightarrow> now - start_time s \<le> - 60"
  proof (cases "0 \<le> now - start_time s")
    case True
    then have "0 \<le> d" unfolding d_def by (simp add: sgn_if pos_imp_zdiv_nonneg_iff)
    with True show ?thesis by simp
  next
    case False
    then have "d = - ((- (now - start_time s)) div 60)" unfolding d_def by (simp add: sgn_if)
    moreover have "0 < (- (now - start_time s)) div 60 \<longleftrightarrow> 60 \<le> - (now - start_time s)"
      by (simp add: pos_imp_zdiv_pos_iff)
    ultimately show ?thesis by linarith
  qed
  then have 6: "now - start_time s \<le> - 60 \<longrightarrow> total_study_minutes b + d < total_study_minutes b"
    by simp
  from st 1 2 3 4 5 6 show ?thesis unfolding d_def by blast
qed

theorem every_duration_added_witness:
  "find (\<lambda>r. session_id r = 1 \<and> end_time r = None) (study_sessions example_open_db)
     = Some \<lparr>session_id = 1, user_id = 1, skill_id = ''python'', start_time = 1000,
             end_time = None, duration_minutes = None\<rparr>
   \<and> find (\<lambda>b. badge_user_id b = 1) (user_badges example_open_db)
     = Some \<lparr>badge_user_id = 1, total_study_minutes = 10, current_badge = ''Member'',
             badge_updated_at = Some 0\<rparr>
   \<and> \<bar>880 - 1000 :: int\<bar> < 2 ^ 52
   \<and> (880 - 1000 :: int) \<le> - 60
   \<and> fst (end_study_session None 880 1 example_open_db) = Inr (- 2)
   \<and> find (\<lambda>b. badge_user_id b = 1)
         (user_badges (snd (end_study_session None 880 1 example_open_db)))
     = Some \<lparr>badge_user_id = 1, total_study_minutes = 8, current_badge = ''Member'',
             badge_updated_at = Some 880\<rparr>"
proof -
  let ?s = "\<lparr>session_id = 1, user_id = 1, skill_id = ''python'', start_time = 1000,
             end_time = None, duration_minutes = None\<rparr>"
  let ?b = "\<lparr>badge_user_id = 1, total_study_minutes = 10, current_badge = ''Member'',
             badge_updated_at = Some 0\<rparr>"
  have f: "find (\<lambda>r. session_id r = 1 \<and> end_time r = None) (study_sessions example_open_db)
     = Some ?s"
    by (simp add: example_open_db_def)
  have g: "find (\<lambda>b. badge_user_id b = user_id ?s) (user_badges example_open_db) = Some ?b"
    by (simp add: example_open_db_def)
  have a: "\<bar>880 - start_time ?s\<bar> < 2 ^ 52" by simp
  have m: "get_badge_for_minutes 8 = ''Member''"
    by (simp add: get_badge_for_minutes_def BADGE_LEVELS_def)
  note t = every_duration_added[OF f g a]
  from t have 1: "fst (end_study_session None 880 1 example_open_db) = Inr (- 2)" by simp
  from t have "find (\<lambda>b. badge_user_id b = user_id ?s)
               (user_badges (snd (end_study_session None 880 1 example_open_db)))
           = Some (?b\<lparr>total_study_minutes :=
                        total_study_minutes ?b
                        + sgn (880 - start_time ?s) * (\<bar>880 - start_time ?s\<bar> div 60),
                      current_badge :=
                        get_badge_for_minutes
                          (total_study_minutes ?b
                           + sgn (880 - start_time ?s) * (\<bar>880 - start_time ?s\<bar> div 60)),
                      badge_updated_at := Some 880\<rparr>)"
    by blast
  then have 2: "find (\<lambda>b. badge_user_id b = 1)
         (user_badges (snd (end_study_session None 880 1 example_open_db)))
     = Some \<lparr>badge_user_id = 1, total_study_minutes = 8, current_badge = ''Member'',
             badge_updated_at = Some 880\<rparr>"
    by (simp add: m)
  from f g 1 2 show ?thesis by simp
qed

subsection \<open>Ending a timer without an entry in the session state\<close>

text \<open>
  C10. When the session state has no dictionary of active sessions, or the
  dictionary has no entry for the skill, \<open>end_study_timer\<close> returns the failure
  \<^verbatim>\<open>No active study timer found\<close> and changes neither the session state nor
  the database, so every open session of the database stays open, also one for
  that user and skill.
\<close>

theorem end_timer_without_entry:
  assumes "\<forall>m. active_study_sessions ss = Some m \<longrightarrow> m skill = None"
  shows "end_study_timer flt now name skill (ss, db) = (Inl ''No active study timer found'', ss, db)
         \<and> open_sessions (snd (snd (end_study_timer flt now name skill (ss, db)))) uid skill
             = open_sessions db uid skill"
  using assms by (auto simp: end_study_timer_def split: option.splits)

theorem end_timer_without_entry_witness:
  "active_study_sessions \<lparr>active_study_sessions = None\<rparr> = None
   \<and> end_study_timer None 2000 ''ada'' ''python'' (\<lparr>active_study_sessions = None\<rparr>, example_open_db)
       = (Inl ''No active study timer found'', \<lparr>active_study_sessions = None\<rparr>, example_open_db)
   \<and> open_sessions example_open_db 1 ''python''
       = [\<lparr>session_id = 1, user_id = 1, skill_id = ''python'', start_time = 1000,
           end_time = None, duration_minutes = None\<rparr>]
   \<and> open_sessions (snd (snd (end_study_timer None 2000 ''ada'' ''python''
          (\<lparr>active_study_sessions = None\<rparr>, example_open_db)))) 1 ''python''
       = [\<lparr>session_id = 1, user_id = 1, skill_id = ''python'', start_time = 1000,
           end_time = None, duration_minutes = None\<rparr>]"
proof -
  have h: "\<forall>m. active_study_sessions \<lparr>active_study_sessions = None\<rparr> = Some m \<longrightarrow> m ''python'' = None"
    by simp
  have o: "open_sessions example_open_db 1 ''python''
       = [\<lparr>session_id = 1, user_id = 1, skill_id = ''python'', start_time = 1000,
           end_time = None, duration_minutes = None\<rparr>]"
    by (simp add: open_sessions_def example_open_db_def)
  from end_timer_without_entry[OF h, of None 2000 "''ada''" example_open_db 1] h o
  show ?thesis by simp
qed

subsection \<open>Status at the last level\<close>

lemma level_index_last: "level_index (title (last BADGE_LEVELS)) = length BADGE_LEVELS - 1"
  by (simp add: level_index_def BADGE_LEVELS_def)

text \<open>
  C9. For a known user whose badge row carries the title of the last level of
  the table, \<open>get_study_badge\<close> returns the next badge
  \<^verbatim>\<open>Highest Level Achieved!\<close>, 0 minutes to the next badge and a progress of
  100, whatever the total of minutes is.
\<close>

theorem highest_tier_status:
  assumes "get_user_id db name = Some uid" and "uid \<noteq> 0"
    and "find (\<lambda>b. badge_user_id b = uid) (user_badges db) = Some b"
    and "current_badge b = title (last BADGE_LEVELS)"
  shows "next_badge (get_study_badge db name) = ''Highest Level Achieved!''
         \<and> minutes_to_next_badge (get_study_badge db name) = 0
         \<and> progress_percent (get_study_badge db name) = 100
         \<and> total_minutes (get_study_badge db name) = total_study_minutes b
         \<and> stats_current_badge (get_study_badge db name) = title (last BADGE_LEVELS)"
proof -
  have s: "get_user_study_stats db (Some uid)
        = \<lparr>total_minutes = total_study_minutes b, stats_current_badge = current_badge b,
           next_badge = ''Highest Level Achieved!'', minutes_to_next_badge = 0\<rparr>"
    using assms(3,4) level_index_last by (simp add: get_user_study_stats_def)
  then have "progress_of (get_user_study_stats db (Some uid)) = 100"
    by (simp add: progress_of_def)
  with s assms show ?thesis
    by (simp add: get_study_badge_def study_stats.defs badge_stats.defs)
qed

theorem highest_tier_status_witness:
  "get_user_id example_top_db ''ada'' = Some 1 \<and> (1::int) \<noteq> 0
   \<and> current_badge \<lparr>badge_user_id = 1, total_study_minutes = 40000,
        current_badge = ''Study Master'', badge_updated_at = Some 0\<rparr> = title (last BADGE_LEVELS)
   \<and> next_badge (get_study_badge example_top_db ''ada'') = ''Highest Level Achieved!''
   \<and> minutes_to_next_badge (get_study_badge example_top_db ''ada'') = 0
   \<and> progress_percent (get_study_badge example_top_db ''ada'') = 100
   \<and> total_minutes (get_study_badge example_top_db ''ada'') = 40000"
proof -
  let ?b = "\<lparr>badge_user_id = 1, total_study_minutes = 40000,
        current_badge = ''Study Master'', badge_updated_at = Some 0\<rparr>"
  have a: "get_user_id example_top_db ''ada'' = Some 1"
    by (simp add: get_user_id_def example_top_db_def)
  have b: "(1::int) \<noteq> 0" by simp
  have c: "find (\<lambda>b. badge_user_id b = 1) (user_badges example_top_db) = Some ?b"
    by (simp add: example_top_db_def)
  have d: "current_badge ?b = title (last BADGE_LEVELS)"
    by (simp add: BADGE_LEVELS_def)
  from highest_tier_status[OF a b c d] a d show ?thesis by simp
qed

subsection \<open>Status below the last level\<close>

lemma first_index_distinct:
  "distinct (map title xs) \<Longrightarrow> i < length xs \<Longrightarrow> first_index xs (title (xs ! i)) = Some i"
proof (induction xs arbitrary: i)
  case Nil
  then show ?case by simp
next
  case (Cons x xs)
  show ?case
  proof (cases i)
    case 0
    then show ?thesis by simp
  next
    case (Suc j)
    with Cons.prems have j: "j < length xs" and d: "distinct (map title xs)"
      and "title (xs ! j) \<in> set (map title xs)" and "title x \<notin> set (map title xs)"
      by auto
    then have "title x \<noteq> title (xs ! j)" by metis
    with Cons.IH[OF d j] Suc show ?thesis by simp
  qed
qed

lemma level_index_nth:
  assumes "i < length BADGE_LEVELS"
  shows "level_index (title (BADGE_LEVELS ! i)) = i"
proof -
  have "distinct (map title BADGE_LEVELS)" by (simp add: BADGE_LEVELS_def)
  from first_index_distinct[OF this assms] show ?thesis by (simp add: level_index_def)
qed

lemma badge_levels_gap:
  assumes "i < length BADGE_LEVELS - 1"
  shows "0 < minutes (BADGE_LEVELS ! (i + 1)) - minutes (BADGE_LEVELS ! i)"
    and "minutes (BADGE_LEVELS ! (i + 1)) - minutes (BADGE_LEVELS ! i) \<le> 6000"
proof -
  from assms have "i < 11" by (simp add: BADGE_LEVELS_def)
  then have "i = 0 \<or> i = 1 \<or> i = 2 \<or> i = 3 \<or> i = 4 \<or> i = 5 \<or> i = 6 \<or> i = 7
               \<or> i = 8 \<or> i = 9 \<or> i = 10"
    by arith
  then show "0 < minutes (BADGE_LEVELS ! (i + 1)) - minutes (BADGE_LEVELS ! i)"
    and "minutes (BADGE_LEVELS ! (i + 1)) - minutes (BADGE_LEVELS ! i) \<le> 6000"
    by (auto simp: BADGE_LEVELS_def)
qed

lemma progress_percent_extend:
  "progress_percent (study_stats.extend stats (badge_stats.fields x)) = x"
  by (simp add: study_stats.defs badge_stats.defs)

text \<open>
  The claim C2 as stated fails: at 150 minutes, between the thresholds 60 and
  300, the progress is 37, not 38.
\<close>

theorem progress_150_is_37:
  "total_minutes (get_study_badge example_entry_db ''ada'') = 150
   \<and> stats_current_badge (get_study_badge example_entry_db ''ada'') = ''Entry''
   \<and> next_badge (get_study_badge example_entry_db ''ada'') = ''Beginner''
   \<and> minutes_to_next_badge (get_study_badge example_entry_db ''ada'') = 150
   \<and> progress_percent (get_study_badge example_entry_db ''ada'') = 37"
  by code_simp

text \<open>
  At 19740 minutes, between the thresholds 18000 and 24000, the exact percentage
  is 29 and the float product falls just below it.
\<close>

lemma progress_19740_is_28:
  "progress_percent (get_study_badge example_master_db ''ada'') = 28
   \<and> (100 * (19740 - 18000)) div (24000 - 18000) = (29::int)"
  by code_simp

text \<open>
  Below the current threshold nothing holds the result at 0: the state with a
  total of - 30, which \<open>end_study_session\<close> itself produces, has a progress of
  - 50.
\<close>

lemma negative_total_reached:
  "end_study_session None 1200 1
     (example_negative_db
        \<lparr>study_sessions :=
           [\<lparr>session_id = 1, user_id = 1, skill_id = ''python'', start_time = 3000,
             end_time = None, duration_minutes = None\<rparr>],
         user_badges :=
           [\<lparr>badge_user_id = 1, total_study_minutes = 0, current_badge = ''Member'',
             badge_updated_at = Some 0\<rparr>]\<rparr>)
     = (Inr (- 30), example_negative_db)"
  by code_simp

lemma progress_negative_total:
  "progress_percent (get_study_badge example_negative_db ''ada'') = - 50"
  by code_simp

lemma progress_percent_formula:
  assumes "get_user_id db name = Some uid" and "uid \<noteq> 0"
    and "find (\<lambda>b. badge_user_id b = uid) (user_badges db) = Some b"
    and "i < length BADGE_LEVELS - 1"
    and "current_badge b = title (BADGE_LEVELS ! i)"
  shows "progress_percent (get_study_badge db name)
           = (if total_study_minutes b < minutes (BADGE_LEVELS ! (i + 1))
              then min 100 (int_of_float
                     (float_mul
                        (int_truediv (total_study_minutes b - minutes (BADGE_LEVELS ! i))
                           (minutes (BADGE_LEVELS ! (i + 1)) - minutes (BADGE_LEVELS ! i)))
                        (float_of_int 100)))
              else 100)"
proof -
  define c where "c = minutes (BADGE_LEVELS ! i)"
  define n where "n = minutes (BADGE_LEVELS ! (i + 1))"
  define t where "t = total_study_minutes b"
  define stats where "stats = get_user_study_stats db (Some uid)"
  have li: "level_index (current_badge b) = i"
    unfolding assms(5) using assms(4) by (intro level_index_nth) simp
  have gap: "0 < n - c"
    unfolding n_def c_def using badge_levels_gap[OF assms(4)] by simp
  have st: "stats = \<lparr>total_minutes = t, stats_current_badge = current_badge b,
                      next_badge = title (BADGE_LEVELS ! (i + 1)),
                      minutes_to_next_badge = max 0 (n - t)\<rparr>"
    unfolding stats_def get_user_study_stats_def n_def t_def
    using assms(3,4) li by simp
  have pp: "progress_percent (get_study_badge db name) = progress_of stats"
    unfolding get_study_badge_def stats_def using assms(1,2)
    by (simp add: progress_percent_extend Let_def)
  have po: "progress_of stats
              = (if t < n
                 then min 100 (int_of_float
                        (float_mul (int_truediv (t - c) (n - c)) (float_of_int 100)))
                 else 100)"
    unfolding progress_of_def st using li assms(4) gap
    by (simp add: Let_def c_def n_def)
  show ?thesis unfolding pp po c_def n_def t_def ..
qed

text \<open>
  C2, amended. For a known user whose badge row carries the title of a level
  that is not the last one, with \<open>c\<close> the threshold of that level, \<open>n\<close> the next
  threshold and \<open>t\<close> the total: below the next threshold \<open>progress_percent\<close> is
  \<^verbatim>\<open>min(100, int((t - c) / (n - c) * 100))\<close> in floats, cut towards zero and
  not rounded. From \<open>c\<close> up to \<open>n\<close> this is the exact percentage rounded down,
  except where the exact percentage is the whole number 29, 57 or 58, where it
  is one less; it lies from 0 to 99. Below \<open>c\<close> it is the negative of the same
  expression for \<open>c - t\<close>, with nothing holding it at 0. From \<open>n\<close> on it is 100.
\<close>

theorem progress_truncated:
  assumes "get_user_id db name = Some uid" and "uid \<noteq> 0"
    and "find (\<lambda>b. badge_user_id b = uid) (user_badges db) = Some b"
    and "i < length BADGE_LEVELS - 1"
    and "current_badge b = title (BADGE_LEVELS ! i)"
    and "c = minutes (BADGE_LEVELS ! i)" and "n = minutes (BADGE_LEVELS ! (i + 1))"
    and "t = total_study_minutes b"
    and "p = progress_percent (get_study_badge db name)"
  shows "(t < n \<longrightarrow>
            p = min 100 (int_of_float
                  (float_mul (int_truediv (t - c) (n - c)) (float_of_int 100))))
         \<and> (c \<le> t \<and> t < n \<longrightarrow>
              p = (if (n - c) dvd 100 * (t - c)
                      \<and> ((100 * (t - c)) div (n - c) = 29
                          \<or> (100 * (t - c)) div (n - c) = 57
                          \<or> (100 * (t - c)) div (n - c) = 58)
                   then (100 * (t - c)) div (n - c) - 1
                   else (100 * (t - c)) div (n - c))
              \<and> (100 * (t - c)) div (n - c) - 1 \<le> p
              \<and> p \<le> (100 * (t - c)) div (n - c)
              \<and> 0 \<le> p \<and> p < 100)
         \<and> (t < c \<longrightarrow>
              p = - int_of_float
                    (float_mul (int_truediv (c - t) (n - c)) (float_of_int 100))
              \<and> p \<le> 0)
         \<and> (n \<le> t \<longrightarrow> p = 100)"
proof -
  define ex where "ex v = int_of_float
                  (float_mul (int_truediv v (n - c)) (float_of_int 100))" for v
  have gap: "0 < n - c" "n - c \<le> 2 ^ 40"
    unfolding assms(6,7) using badge_levels_gap[OF assms(4)] by simp_all
  have f: "p = (if t < n then min 100 (ex (t - c)) else 100)"
    unfolding assms(6-9) ex_def by (rule progress_percent_formula[OF assms(1-5)])
  have 1: "t < n \<longrightarrow> p = min 100 (ex (t - c))" unfolding f by simp
  have 4: "n \<le> t \<longrightarrow> p = 100" unfolding f by simp
  have 2: "c \<le> t \<and> t < n \<longrightarrow>
              p = (if (n - c) dvd 100 * (t - c)
                      \<and> ((100 * (t - c)) div (n - c) = 29
                          \<or> (100 * (t - c)) div (n - c) = 57
                          \<or> (100 * (t - c)) div (n - c) = 58)
                   then (100 * (t - c)) div (n - c) - 1
                   else (100 * (t - c)) div (n - c))
              \<and> (100 * (t - c)) div (n - c) - 1 \<le> p
              \<and> p \<le> (100 * (t - c)) div (n - c)
              \<and> 0 \<le> p \<and> p < 100"
  proof
    assume a: "c \<le> t \<and> t < n"
    then have v: "0 \<le> t - c" "t - c < n - c" by simp_all
    note F = progress_float[OF v gap(2), folded ex_def]
    note E = progress_exact[OF v gap(2), folded ex_def]
    from F(5) a have pe: "p = ex (t - c)" unfolding f by simp
    from E F(1,2,4,5) show "p = (if (n - c) dvd 100 * (t - c)
                      \<and> ((100 * (t - c)) div (n - c) = 29
                          \<or> (100 * (t - c)) div (n - c) = 57
                          \<or> (100 * (t - c)) div (n - c) = 58)
                   then (100 * (t - c)) div (n - c) - 1
                   else (100 * (t - c)) div (n - c))
              \<and> (100 * (t - c)) div (n - c) - 1 \<le> p
              \<and> p \<le> (100 * (t - c)) div (n - c)
              \<and> 0 \<le> p \<and> p < 100"
      unfolding pe by blast
  qed
  have 3: "t < c \<longrightarrow> p = - ex (c - t) \<and> p \<le> 0"
  proof
    assume a: "t < c"
    with gap(1) have tn: "t < n" by simp
    have "ex (t - c) = ex (- (c - t))" by simp
    also have "\<dots> = - ex (c - t)" unfolding ex_def using gap(1) by (rule progress_expr_neg)
    finally have e: "ex (t - c) = - ex (c - t)" .
    have "0 \<le> ex (c - t)" unfolding ex_def using a gap(1) by (intro progress_expr_nonneg) simp_all
    with e tn show "p = - ex (c - t) \<and> p \<le> 0" unfolding f by simp
  qed
  from 1 2 3 4 show ?thesis unfolding ex_def by blast
qed

theorem progress_truncated_witness:
  "get_user_id example_entry_db ''ada'' = Some 1 \<and> (1::int) \<noteq> 0
   \<and> (1::nat) < length BADGE_LEVELS - 1
   \<and> title (BADGE_LEVELS ! 1) = ''Entry''
   \<and> minutes (BADGE_LEVELS ! 1) = 60 \<and> minutes (BADGE_LEVELS ! 2) = 300
   \<and> (60::int) \<le> 150 \<and> (150::int) < 300
   \<and> \<not> (300 - 60 :: int) dvd 100 * (150 - 60)
   \<and> (100 * (150 - 60)) div (300 - 60) = (37::int)
   \<and> progress_percent (get_study_badge example_entry_db ''ada'') = 37
   \<and> get_user_id example_master_db ''ada'' = Some 1
   \<and> (8::nat) < length BADGE_LEVELS - 1
   \<and> title (BADGE_LEVELS ! 8) = ''Master''
   \<and> minutes (BADGE_LEVELS ! 8) = 18000 \<and> minutes (BADGE_LEVELS ! 9) = 24000
   \<and> (18000::int) \<le> 19740 \<and> (19740::int) < 24000
   \<and> (24000 - 18000 :: int) dvd 100 * (19740 - 18000)
   \<and> (100 * (19740 - 18000)) div (24000 - 18000) = (29::int)
   \<and> progress_percent (get_study_badge example_master_db ''ada'') = 28"
proof -
  let ?b = "\<lparr>badge_user_id = 1, total_study_minutes = 150, current_badge = ''Entry'',
          badge_updated_at = Some 0\<rparr>"
  let ?m = "\<lparr>badge_user_id = 1, total_study_minutes = 19740, current_badge = ''Master'',
          badge_updated_at = Some 0\<rparr>"
  have a: "get_user_id example_entry_db ''ada'' = Some 1"
    by (simp add: get_user_id_def example_entry_db_def)
  have a': "get_user_id example_master_db ''ada'' = Some 1"
    by (simp add: get_user_id_def example_master_db_def)
  have b: "(1::int) \<noteq> 0" by simp
  have c: "find (\<lambda>b. badge_user_id b = 1) (user_badges example_entry_db) = Some ?b"
    by (simp add: example_entry_db_def)
  have c': "find (\<lambda>b. badge_user_id b = 1) (user_badges example_master_db) = Some ?m"
    by (simp add: example_master_db_def)
  have i: "(1::nat) < length BADGE_LEVELS - 1" "(8::nat) < length BADGE_LEVELS - 1"
    by (simp_all add: BADGE_LEVELS_def)
  have n: "title (BADGE_LEVELS ! 1) = ''Entry''" "minutes (BADGE_LEVELS ! 1) = 60"
    "minutes (BADGE_LEVELS ! 2) = 300" "(60::int) = minutes (BADGE_LEVELS ! 1)"
    "(300::int) = minutes (BADGE_LEVELS ! (1 + 1))"
    "title (BADGE_LEVELS ! 8) = ''Master''" "minutes (BADGE_LEVELS ! 8) = 18000"
    "minutes (BADGE_LEVELS ! 9) = 24000" "(18000::int) = minutes (BADGE_LEVELS ! 8)"
    "(24000::int) = minutes (BADGE_LEVELS ! (8 + 1))"
    by (simp_all add: BADGE_LEVELS_def)
  have t: "current_badge ?b = title (BADGE_LEVELS ! 1)" using n(1) by simp
  have t': "current_badge ?m = title (BADGE_LEVELS ! 8)" using n(6) by simp
  have u: "(150::int) = total_study_minutes ?b" "(19740::int) = total_study_minutes ?m"
    by simp_all
  from progress_truncated[OF a b c i(1) t n(4) n(5) u(1) refl]
  have 1: "progress_percent (get_study_badge example_entry_db ''ada'') = 37" by simp
  from progress_truncated[OF a' b c' i(2) t' n(9) n(10) u(2) refl]
  have 2: "progress_percent (get_study_badge example_master_db ''ada'') = 28" by simp
  from a a' i n(1,2,3,6,7,8) 1 2 show ?thesis by simp
qed


end
